theory Spec2Isabelle
  imports Complex_Main "HOL-Library.AList" "HOL-Library.Char_ord" "HOL-Library.List_Lexorder"
begin

section \<open>Values: float64 cells\<close>

text \<open>
  A cell of a pandas column is a float64 (or an integer, which is a finite value here):
  NaN (pandas' "undefined"), one of the two infinities, or a finite number. The sign of
  zero is not modelled.
\<close>

datatype fl = NaN | NInf | Fin real | PInf

text \<open>
  The numeric library under the program is not part of the repository. What the program
  needs of it is taken as a parameter:
  \<^item> \<open>round64 x\<close> is the float64 nearest to the real number \<open>x\<close>, or \<open>None\<close> when \<open>x\<close> is
    beyond the float64 range (the operation then gives the infinity of the sign of \<open>x\<close>).
    IEEE addition, subtraction, multiplication and division of finite numbers are this
    rounding of the exact result;
  \<^item> \<open>window_mean vs\<close> is what pandas' \<open>rolling(...).mean()\<close> gives for a full window of
    finite values \<open>vs\<close>;
  \<^item> \<open>pad\<close> tells whether \<open>pct_change()\<close> forward-fills first (its default
    \<open>fill_method\<close> differs between pandas releases).
  Every theorem below holds for every value of this parameter.
\<close>

record lib =
  round64 :: "real \<Rightarrow> real option"
  window_mean :: "real list \<Rightarrow> fl"
  pad :: bool

definition rounded :: "lib \<Rightarrow> real \<Rightarrow> fl" where
  "rounded L x =
     (case round64 L x of Some y \<Rightarrow> Fin y | None \<Rightarrow> if x > 0 then PInf else NInf)"

fun inf_of_sign :: "real \<Rightarrow> fl" where
  "inf_of_sign s = (if s > 0 then PInf else if s < 0 then NInf else NaN)"

fun sign_of :: "fl \<Rightarrow> real" where
  "sign_of (Fin a) = sgn a"
| "sign_of PInf = 1"
| "sign_of NInf = -1"
| "sign_of NaN = 0"

fun fl_neg :: "fl \<Rightarrow> fl" where
  "fl_neg NaN = NaN"
| "fl_neg (Fin a) = Fin (- a)"
| "fl_neg PInf = NInf"
| "fl_neg NInf = PInf"

fun fl_add :: "lib \<Rightarrow> fl \<Rightarrow> fl \<Rightarrow> fl" where
  "fl_add L NaN _ = NaN"
| "fl_add L _ NaN = NaN"
| "fl_add L (Fin a) (Fin b) = rounded L (a + b)"
| "fl_add L PInf NInf = NaN"
| "fl_add L NInf PInf = NaN"
| "fl_add L PInf _ = PInf"
| "fl_add L _ PInf = PInf"
| "fl_add L NInf _ = NInf"
| "fl_add L _ NInf = NInf"

definition fl_sub :: "lib \<Rightarrow> fl \<Rightarrow> fl \<Rightarrow> fl" where
  "fl_sub L a b = fl_add L a (fl_neg b)"

fun fl_mul :: "lib \<Rightarrow> fl \<Rightarrow> fl \<Rightarrow> fl" where
  "fl_mul L NaN _ = NaN"
| "fl_mul L _ NaN = NaN"
| "fl_mul L (Fin a) (Fin b) = rounded L (a * b)"
| "fl_mul L a b = inf_of_sign (sign_of a * sign_of b)"

text \<open>Division as numpy does it: no exception, \<open>x / 0\<close> is an infinity and \<open>0 / 0\<close> is NaN.\<close>

fun fl_div :: "lib \<Rightarrow> fl \<Rightarrow> fl \<Rightarrow> fl" where
  "fl_div L NaN _ = NaN"
| "fl_div L _ NaN = NaN"
| "fl_div L (Fin a) (Fin b) = (if b = 0 then inf_of_sign (sgn a) else rounded L (a / b))"
| "fl_div L (Fin a) _ = Fin 0"
| "fl_div L a (Fin b) = inf_of_sign (sign_of a * (if b < 0 then -1 else 1))"
| "fl_div L _ _ = NaN"

text \<open>Comparison: every comparison with NaN is false.\<close>

fun fl_gt :: "fl \<Rightarrow> fl \<Rightarrow> bool" where
  "fl_gt NaN _ = False"
| "fl_gt _ NaN = False"
| "fl_gt (Fin a) (Fin b) = (a > b)"
| "fl_gt PInf PInf = False"
| "fl_gt PInf _ = True"
| "fl_gt _ PInf = False"
| "fl_gt NInf _ = False"
| "fl_gt _ NInf = True"

fun fl_eq :: "fl \<Rightarrow> fl \<Rightarrow> bool" where
  "fl_eq NaN _ = False"
| "fl_eq _ NaN = False"
| "fl_eq a b = (a = b)"

fun is_fin :: "fl \<Rightarrow> bool" where
  "is_fin (Fin _) = True"
| "is_fin _ = False"

fun val :: "fl \<Rightarrow> real" where
  "val (Fin a) = a"
| "val _ = 0"

text \<open>
  \<open>astype(float64)\<close> of a cell, the conversion pandas applies to an integer column when a
  missing value enters it: a finite value becomes the float64 nearest to it.
\<close>

fun as_float64 :: "lib \<Rightarrow> fl \<Rightarrow> fl" where
  "as_float64 L (Fin a) = rounded L a"
| "as_float64 L x = x"

text \<open>int64 arithmetic wraps around.\<close>

definition wrap64 :: "int \<Rightarrow> int" where
  "wrap64 x = (x + 2 ^ 63) mod 2 ^ 64 - 2 ^ 63"

section \<open>Series\<close>

type_synonym series = "fl list"

text \<open>\<open>s.shift(1)\<close>: every value moves one row down, row 0 becomes NaN, the length stays.\<close>

definition shift1 :: "series \<Rightarrow> series" where
  "shift1 xs = (case xs of [] \<Rightarrow> [] | _ # _ \<Rightarrow> NaN # butlast xs)"

text \<open>Elementwise operations of two series over the same index.\<close>

definition series_mul :: "lib \<Rightarrow> series \<Rightarrow> series \<Rightarrow> series" where
  "series_mul L xs ys = map (\<lambda>(x, y). fl_mul L x y) (zip xs ys)"

definition series_div :: "lib \<Rightarrow> series \<Rightarrow> series \<Rightarrow> series" where
  "series_div L xs ys = map (\<lambda>(x, y). fl_div L x y) (zip xs ys)"

definition series_gt :: "series \<Rightarrow> series \<Rightarrow> bool list" where
  "series_gt xs ys = map (\<lambda>(x, y). fl_gt x y) (zip xs ys)"

definition series_gt_scalar :: "series \<Rightarrow> fl \<Rightarrow> bool list" where
  "series_gt_scalar xs c = map (\<lambda>x. fl_gt x c) xs"

definition series_eq_scalar :: "series \<Rightarrow> fl \<Rightarrow> bool list" where
  "series_eq_scalar xs c = map (\<lambda>x. fl_eq x c) xs"

definition series_and :: "bool list \<Rightarrow> bool list \<Rightarrow> bool list" where
  "series_and xs ys = map (\<lambda>(x, y). x \<and> y) (zip xs ys)"

definition astype_int :: "bool list \<Rightarrow> series" where
  "astype_int bs = map (\<lambda>b. if b then Fin 1 else Fin 0) bs"

definition scalar_add :: "lib \<Rightarrow> fl \<Rightarrow> series \<Rightarrow> series" where
  "scalar_add L c xs = map (fl_add L c) xs"

definition series_sub_scalar :: "lib \<Rightarrow> series \<Rightarrow> fl \<Rightarrow> series" where
  "series_sub_scalar L xs c = map (\<lambda>x. fl_sub L x c) xs"

text \<open>
  \<open>s.rolling(window=w).mean()\<close>, with \<open>min_periods\<close> defaulting to the window: row \<open>t\<close> has
  a value only when the \<open>w\<close> rows ending at \<open>t\<close> exist and all hold a finite value (pandas
  turns infinities into NaN before rolling); the value is the library's mean of those
  \<open>w\<close> values. A window of 0 gives NaN everywhere.
\<close>

definition window_at :: "nat \<Rightarrow> series \<Rightarrow> nat \<Rightarrow> series" where
  "window_at w xs t = take w (drop (Suc t - w) xs)"

definition rolling_mean_at :: "lib \<Rightarrow> nat \<Rightarrow> series \<Rightarrow> nat \<Rightarrow> fl" where
  "rolling_mean_at L w xs t =
     (if w = 0 \<or> Suc t < w then NaN
      else if list_all is_fin (window_at w xs t)
           then window_mean L (map val (window_at w xs t))
           else NaN)"

definition rolling_mean :: "lib \<Rightarrow> nat \<Rightarrow> series \<Rightarrow> series" where
  "rolling_mean L w xs = map (rolling_mean_at L w xs) [0..<length xs]"

text \<open>\<open>s.ffill()\<close>: a NaN takes the last value before it that is not NaN; leading NaNs stay.\<close>

fun ffill_from :: "fl \<Rightarrow> series \<Rightarrow> series" where
  "ffill_from prev [] = []"
| "ffill_from prev (x # xs) =
     (if x = NaN then prev # ffill_from prev xs else x # ffill_from x xs)"

definition ffill :: "series \<Rightarrow> series" where
  "ffill xs = ffill_from NaN xs"

text \<open>
  \<open>s.pct_change()\<close> is \<open>d / d.shift(1) - 1\<close>, where \<open>d\<close> is the series itself or, when the
  library pads, its forward fill.
\<close>

definition pct_change :: "lib \<Rightarrow> series \<Rightarrow> series" where
  "pct_change L xs =
     (let d = (if pad L then ffill xs else xs)
      in series_sub_scalar L (series_div L d (shift1 d)) (Fin 1))"

text \<open>
  \<open>s.cumprod()\<close> with \<open>skipna=True\<close>, as pandas computes it: NaN cells are replaced by 1,
  numpy's running product is taken, and NaN is written back at the replaced rows.
\<close>

fun np_cumprod_from :: "lib \<Rightarrow> fl \<Rightarrow> series \<Rightarrow> series" where
  "np_cumprod_from L acc [] = []"
| "np_cumprod_from L acc (x # xs) = fl_mul L acc x # np_cumprod_from L (fl_mul L acc x) xs"

definition np_cumprod :: "lib \<Rightarrow> series \<Rightarrow> series" where
  "np_cumprod L xs = (case xs of [] \<Rightarrow> [] | x # r \<Rightarrow> x # np_cumprod_from L x r)"

definition cumprod :: "lib \<Rightarrow> series \<Rightarrow> series" where
  "cumprod L xs =
     map (\<lambda>(x, p). if x = NaN then NaN else p)
         (zip xs (np_cumprod L (map (\<lambda>x. if x = NaN then Fin 1 else x) xs)))"

text \<open>
  \<open>s.sum()\<close> of an integer column, as the Signal column is: integer addition, which is
  exact (a table has far fewer than \<open>2^63\<close> rows of 0 and 1).
\<close>

definition int_sum :: "series \<Rightarrow> fl" where
  "int_sum xs = Fin (sum_list (map val xs))"

section \<open>Data frames\<close>

text \<open>
  A time stamp of a \<open>DatetimeIndex\<close>: the wall-clock reading and the time zone, if the index
  is zone-aware. \<open>tz_localize(None)\<close> drops the zone and keeps the wall-clock reading.
\<close>

record stamp =
  wall :: int
  tz :: "string option"

definition tz_localize_None :: "stamp \<Rightarrow> stamp" where
  "tz_localize_None s = s\<lparr>tz := None\<rparr>"

text \<open>
  A frame is its index and its columns in order, each column a series. In a frame that
  pandas can build every column is as long as the index (\<open>wf_frame\<close>).
\<close>

record frame =
  index :: "stamp list"
  cols :: "(string \<times> series) list"

definition wf_frame :: "frame \<Rightarrow> bool" where
  "wf_frame f = list_all (\<lambda>(n, c). length c = length (index f)) (cols f)"

datatype error = KeyError string | ValueError | IndexError | ProviderError string

text \<open>\<open>df[name]\<close>: KeyError when there is no such column.\<close>

definition getcol :: "frame \<Rightarrow> string \<Rightarrow> error + series" where
  "getcol f name = (case map_of (cols f) name of None \<Rightarrow> Inl (KeyError name) | Some c \<Rightarrow> Inr c)"

text \<open>\<open>df[name] = s\<close>: replaces the column in place, or appends it as the last column.\<close>

definition setcol :: "frame \<Rightarrow> string \<Rightarrow> series \<Rightarrow> frame" where
  "setcol f name c = f\<lparr>cols := AList.update name c (cols f)\<rparr>"

text \<open>\<open>df.empty\<close>: no rows or no columns.\<close>

definition df_empty :: "frame \<Rightarrow> bool" where
  "df_empty f = (index f = [] \<or> cols f = [])"

definition bind_e :: "error + 'a \<Rightarrow> ('a \<Rightarrow> error + 'b) \<Rightarrow> error + 'b" where
  "bind_e m k = (case m of Inl e \<Rightarrow> Inl e | Inr x \<Rightarrow> k x)"

section \<open>The backtest: \<open>run_backtest\<close>\<close>

text \<open>
  Each assignment of the body of \<open>run_backtest\<close> reads columns of \<open>data\<close> and writes one
  column of \<open>data\<close>; it is a function from the frame before to the frame after, or the
  KeyError of a missing column.
\<close>

text \<open>\<open>data['MA'] = data['Close'].rolling(window=ma_window).mean()\<close>\<close>

definition assign_MA :: "lib \<Rightarrow> nat \<Rightarrow> frame \<Rightarrow> error + frame" where
  "assign_MA L ma_window data =
     bind_e (getcol data ''Close'') (\<lambda>close.
       Inr (setcol data ''MA'' (rolling_mean L ma_window close)))"

text \<open>\<open>data['Daily_Return'] = data['Close'].pct_change()\<close>\<close>

definition assign_Daily_Return :: "lib \<Rightarrow> frame \<Rightarrow> error + frame" where
  "assign_Daily_Return L data =
     bind_e (getcol data ''Close'') (\<lambda>close.
       Inr (setcol data ''Daily_Return'' (pct_change L close)))"

text \<open>
  \<open>condition_tech = data['Close'] > data['MA']\<close>,
  \<open>condition_chip = data['Foreign_Investor'] > 0\<close>,
  \<open>data['Signal'] = (condition_tech & condition_chip).astype(int)\<close>
\<close>

definition assign_Signal :: "frame \<Rightarrow> error + frame" where
  "assign_Signal data =
     bind_e (getcol data ''Close'') (\<lambda>close.
     bind_e (getcol data ''MA'') (\<lambda>ma.
     let condition_tech = series_gt close ma in
     bind_e (getcol data ''Foreign_Investor'') (\<lambda>fi.
     let condition_chip = series_gt_scalar fi (Fin 0) in
       Inr (setcol data ''Signal'' (astype_int (series_and condition_tech condition_chip))))))"

text \<open>\<open>data['Strategy_Return'] = data['Signal'].shift(1) * data['Daily_Return']\<close>\<close>

definition strategy_return :: "lib \<Rightarrow> series \<Rightarrow> series \<Rightarrow> series" where
  "strategy_return L signal daily_return = series_mul L (shift1 signal) daily_return"

definition assign_Strategy_Return :: "lib \<Rightarrow> frame \<Rightarrow> error + frame" where
  "assign_Strategy_Return L data =
     bind_e (getcol data ''Signal'') (\<lambda>signal.
     bind_e (getcol data ''Daily_Return'') (\<lambda>daily_return.
       Inr (setcol data ''Strategy_Return'' (strategy_return L signal daily_return))))"

text \<open>\<open>data['Cum_Market'] = (1 + data['Daily_Return']).cumprod()\<close>\<close>

definition assign_Cum_Market :: "lib \<Rightarrow> frame \<Rightarrow> error + frame" where
  "assign_Cum_Market L data =
     bind_e (getcol data ''Daily_Return'') (\<lambda>daily_return.
       Inr (setcol data ''Cum_Market'' (cumprod L (scalar_add L (Fin 1) daily_return))))"

text \<open>\<open>data['Cum_Strategy'] = (1 + data['Strategy_Return']).cumprod()\<close>\<close>

definition assign_Cum_Strategy :: "lib \<Rightarrow> frame \<Rightarrow> error + frame" where
  "assign_Cum_Strategy L data =
     bind_e (getcol data ''Strategy_Return'') (\<lambda>strategy_ret.
       Inr (setcol data ''Cum_Strategy'' (cumprod L (scalar_add L (Fin 1) strategy_ret))))"

text \<open>The body of \<open>run_backtest\<close>, in the order of the source.\<close>

definition body :: "lib \<Rightarrow> nat \<Rightarrow> (frame \<Rightarrow> error + frame) list" where
  "body L ma_window =
     [assign_MA L ma_window, assign_Daily_Return L, assign_Signal,
      assign_Strategy_Return L, assign_Cum_Market L, assign_Cum_Strategy L]"

fun run_stmts :: "(frame \<Rightarrow> error + frame) list \<Rightarrow> frame \<Rightarrow> error + frame" where
  "run_stmts [] data = Inr data"
| "run_stmts (s # ss) data = bind_e (s data) (run_stmts ss)"

text \<open>\<open>run_backtest\<close> as a function of the value of its argument: the table it returns.\<close>

definition run_backtest :: "lib \<Rightarrow> frame \<Rightarrow> nat \<Rightarrow> error + frame" where
  "run_backtest L df ma_window = run_stmts (body L ma_window) df"

section \<open>The store: \<open>run_backtest\<close> with its argument passed by reference\<close>

text \<open>
  Python passes the table by reference. The store is the list of the frames allocated so
  far, an address is a position in it. \<open>df.copy()\<close> allocates a new frame with the
  contents of \<open>df\<close>; every assignment \<open>data[...] = ...\<close> reads and overwrites the
  frame at the address held by \<open>data\<close>. An exception stops the body and leaves the store
  as it is at that moment.
\<close>

type_synonym store = "frame list"

definition df_copy :: "store \<Rightarrow> nat \<Rightarrow> nat \<times> store" where
  "df_copy h a = (length h, h @ [h ! a])"

fun exec_at :: "(frame \<Rightarrow> error + frame) list \<Rightarrow> nat \<Rightarrow> store \<Rightarrow> error option \<times> store" where
  "exec_at [] a h = (None, h)"
| "exec_at (s # ss) a h =
     (case s (h ! a) of Inl e \<Rightarrow> (Some e, h) | Inr f \<Rightarrow> exec_at ss a (h[a := f]))"

definition run_backtest_heap :: "lib \<Rightarrow> store \<Rightarrow> nat \<Rightarrow> nat \<Rightarrow> (error + nat) \<times> store" where
  "run_backtest_heap L h df ma_window =
     (let (data, h0) = df_copy h df;
          (r, h1) = exec_at (body L ma_window) data h0
      in (case r of Some e \<Rightarrow> Inl e | None \<Rightarrow> Inr data, h1))"

section \<open>The summary metrics of the main program\<close>

record metrics =
  total_return :: fl
  market_return :: fl
  trade_days :: fl
  win_rate :: fl

text \<open>\<open>s.iloc[-1]\<close>: the last cell, IndexError on a series without rows.\<close>

definition iloc_last :: "series \<Rightarrow> error + fl" where
  "iloc_last xs = (case xs of [] \<Rightarrow> Inl IndexError | _ # _ \<Rightarrow> Inr (last xs))"

text \<open>\<open>res[mask].shape[0]\<close>: the number of rows at which the mask holds.\<close>

definition count_true :: "bool list \<Rightarrow> nat" where
  "count_true bs = length (filter (\<lambda>b. b) bs)"

text \<open>
  The metric computation that follows \<open>res = run_backtest(df)\<close> in the main program:
  \<open>total_return\<close>, \<open>market_return\<close>, \<open>trade_days\<close> and the guarded \<open>win_rate\<close>.
\<close>

definition metrics_of :: "lib \<Rightarrow> frame \<Rightarrow> error + metrics" where
  "metrics_of L res =
     bind_e (getcol res ''Cum_Strategy'') (\<lambda>cum_strategy.
     bind_e (iloc_last cum_strategy) (\<lambda>last_strategy.
     bind_e (getcol res ''Cum_Market'') (\<lambda>cum_market.
     bind_e (iloc_last cum_market) (\<lambda>last_market.
     bind_e (getcol res ''Signal'') (\<lambda>signal.
     let tot = fl_mul L (fl_sub L last_strategy (Fin 1)) (Fin 100);
         mkt = fl_mul L (fl_sub L last_market (Fin 1)) (Fin 100);
         days = int_sum signal
     in if fl_gt days (Fin 0)
        then bind_e (getcol res ''Strategy_Return'') (\<lambda>strategy_ret.
             let win_days = count_true (series_and (series_eq_scalar (shift1 signal) (Fin 1))
                                                   (series_gt_scalar strategy_ret (Fin 0)))
             in Inr \<lparr>total_return = tot, market_return = mkt, trade_days = days,
                     win_rate = fl_mul L (fl_div L (Fin (real win_days)) days) (Fin 100)\<rparr>)
        else Inr \<lparr>total_return = tot, market_return = mkt, trade_days = days,
                  win_rate = Fin 0\<rparr>)))))"


text \<open>
  The backtest tab of the main program: \<open>res = run_backtest(df)\<close> with the default window
  of 20, then the metrics. It is reached only with a table that is neither absent nor
  empty.
\<close>

definition backtest_tab :: "lib \<Rightarrow> frame \<Rightarrow> error + metrics" where
  "backtest_tab L df = bind_e (run_backtest L df 20) (metrics_of L)"

section \<open>The data merger: \<open>get_data\<close>\<close>

text \<open>
  A record of the institutional-flow provider. Its \<open>date\<close> is a calendar day written
  without a time zone; it is kept as the wall-clock reading of that day's midnight, the
  value \<open>pd.to_datetime\<close> gives it. \<open>buy\<close> and \<open>sell\<close> are int64 columns.
\<close>

record chip =
  date :: int
  name :: string
  buy :: int
  sell :: int

text \<open>\<open>df_chip['net'] = df_chip['buy'] - df_chip['sell']\<close>, in int64.\<close>

definition net :: "chip \<Rightarrow> int" where
  "net c = wrap64 (buy c - sell c)"

definition to_datetime :: "int \<Rightarrow> stamp" where
  "to_datetime d = \<lparr>wall = d, tz = None\<rparr>"

text \<open>\<open>fillna(0)\<close> on a series and on every column of a frame.\<close>

definition fillna0_series :: "series \<Rightarrow> series" where
  "fillna0_series xs = map (\<lambda>x. if x = NaN then Fin 0 else x) xs"

definition fillna0 :: "frame \<Rightarrow> frame" where
  "fillna0 f = f\<lparr>cols := map (\<lambda>(n, c). (n, fillna0_series c)) (cols f)\<rparr>"

text \<open>
  \<open>pivot_table(index='date', columns='name', values='net', aggfunc='sum')\<close>: one row per
  date that occurs, in ascending order, one column per name that occurs, in ascending
  order; the cell is the int64 sum of \<open>net\<close> over the records of that date and name, NaN
  where there is none. When some cell is NaN the table is a float64 table, and the sums
  are converted.
\<close>

definition flow_recorded :: "chip list \<Rightarrow> int \<Rightarrow> string \<Rightarrow> bool" where
  "flow_recorded chips d n = list_ex (\<lambda>c. date c = d \<and> name c = n) chips"

definition flow_on :: "chip list \<Rightarrow> int \<Rightarrow> string \<Rightarrow> int" where
  "flow_on chips d n =
     wrap64 (sum_list (map net (filter (\<lambda>c. date c = d \<and> name c = n) chips)))"

definition pivot_dates :: "chip list \<Rightarrow> int list" where
  "pivot_dates chips = sort (remdups (map date chips))"

definition pivot_names :: "chip list \<Rightarrow> string list" where
  "pivot_names chips = sort (remdups (map name chips))"

definition pivot_gap :: "chip list \<Rightarrow> bool" where
  "pivot_gap chips =
     list_ex (\<lambda>d. list_ex (\<lambda>n. \<not> flow_recorded chips d n) (pivot_names chips))
             (pivot_dates chips)"

definition pivot_cell :: "lib \<Rightarrow> chip list \<Rightarrow> int \<Rightarrow> string \<Rightarrow> fl" where
  "pivot_cell L chips d n =
     (if \<not> flow_recorded chips d n then NaN
      else if pivot_gap chips then as_float64 L (Fin (real_of_int (flow_on chips d n)))
      else Fin (real_of_int (flow_on chips d n)))"

definition pivot_table :: "lib \<Rightarrow> chip list \<Rightarrow> frame" where
  "pivot_table L chips =
     \<lparr>index = map to_datetime (pivot_dates chips),
      cols = map (\<lambda>n. (n, map (\<lambda>d. pivot_cell L chips d n) (pivot_dates chips)))
                 (pivot_names chips)\<rparr>"

text \<open>
  \<open>left.join(right, how='left')\<close> on the index, for a right index without duplicates (the
  index of a pivot table): the rows and the order of the left frame, the right columns
  looked up by time stamp and NaN where the stamp is missing on the right; when a stamp
  is missing and the right columns are integer columns (\<open>right_int\<close>), they become
  float64 columns. Column names that occur on both sides raise ValueError.
\<close>

definition lookup_row :: "frame \<Rightarrow> series \<Rightarrow> stamp \<Rightarrow> fl" where
  "lookup_row right c s = (case map_of (zip (index right) c) s of None \<Rightarrow> NaN | Some v \<Rightarrow> v)"

definition join_missing :: "frame \<Rightarrow> frame \<Rightarrow> bool" where
  "join_missing left right = list_ex (\<lambda>s. s \<notin> set (index right)) (index left)"

definition join_column :: "lib \<Rightarrow> bool \<Rightarrow> frame \<Rightarrow> frame \<Rightarrow> series \<Rightarrow> series" where
  "join_column L right_int left right c =
     (let looked = map (lookup_row right c) (index left)
      in if right_int \<and> join_missing left right then map (as_float64 L) looked else looked)"

definition join_left :: "lib \<Rightarrow> bool \<Rightarrow> frame \<Rightarrow> frame \<Rightarrow> error + frame" where
  "join_left L right_int left right =
     (if list_ex (\<lambda>n. n \<in> set (map fst (cols right))) (map fst (cols left))
      then Inl ValueError
      else Inr \<lparr>index = index left,
                cols = cols left @
                       map (\<lambda>(n, c). (n, join_column L right_int left right c)) (cols right)\<rparr>)"

text \<open>
  \<open>get_data\<close>. Its two arguments after the library are what the two provider calls do
  when they are made with the symbol and the dates computed from \<open>symbol\<close> and \<open>days\<close>:
  raise, or return a table. The flow call is made only after the price table was found
  not to be empty. The price table is given with the flat column names that the
  \<open>MultiIndex\<close> step leaves. The pivot table is an integer table exactly when it has no
  gap. The result is an exception, \<open>None\<close>, or the merged table.
\<close>

definition get_data :: "lib \<Rightarrow> error + frame \<Rightarrow> error + chip list \<Rightarrow> error + frame option" where
  "get_data L price_fetch chip_fetch =
     bind_e price_fetch (\<lambda>df_price.
     if df_empty df_price then Inr None
     else bind_e chip_fetch (\<lambda>df_chip.
       if df_chip \<noteq> []
       then let df_chip_pivot = fillna0 (pivot_table L df_chip);
                df_price' = df_price\<lparr>index := map tz_localize_None (index df_price)\<rparr>
            in bind_e (join_left L (\<not> pivot_gap df_chip) df_price' df_chip_pivot)
                 (\<lambda>joined. Inr (Some (fillna0 joined)))
       else Inr (Some (setcol df_price ''Foreign_Investor''
                         (replicate (length (index df_price)) (Fin 0))))))"

section \<open>Derived notions and example inputs\<close>

text \<open>
  A library of unbounded precision: every real is its own rounding and the window mean
  is the exact mean. It is the library of the worked examples.
\<close>

definition exact_lib :: "bool \<Rightarrow> lib" where
  "exact_lib p =
     \<lparr>round64 = Some, window_mean = (\<lambda>vs. Fin (sum_list vs / real (length vs))), pad = p\<rparr>"

text \<open>
  The table \<open>run_backtest\<close> returns for an input that has the two columns it reads,
  written out column by column.
\<close>

definition backtest_frame :: "lib \<Rightarrow> frame \<Rightarrow> nat \<Rightarrow> series \<Rightarrow> series \<Rightarrow> frame" where
  "backtest_frame L df w close fi =
     (let ma = rolling_mean L w close;
          dr = pct_change L close;
          sg = astype_int (series_and (series_gt close ma) (series_gt_scalar fi (Fin 0)));
          sr = strategy_return L sg dr
      in setcol (setcol (setcol (setcol (setcol (setcol df ''MA'' ma) ''Daily_Return'' dr)
                   ''Signal'' sg) ''Strategy_Return'' sr)
                   ''Cum_Market'' (cumprod L (scalar_add L (Fin 1) dr)))
                   ''Cum_Strategy'' (cumprod L (scalar_add L (Fin 1) sr)))"

text \<open>A column of the table a computation returns, the computation's exception otherwise.\<close>

definition column_of :: "error + frame \<Rightarrow> string \<Rightarrow> error + series" where
  "column_of res c = bind_e res (\<lambda>r. getcol r c)"

text \<open>
  The equity of row \<open>t\<close> as the specification words it: the product, taken from row 0 to
  row \<open>t\<close>, of \<open>1 + return\<close>, an undefined return counting as the multiplier 1.
\<close>

definition spec_equity :: "lib \<Rightarrow> series \<Rightarrow> nat \<Rightarrow> fl" where
  "spec_equity L rs t =
     (case map (\<lambda>x. if x = NaN then Fin 1 else fl_add L (Fin 1) x) (take (Suc t) rs) of
        [] \<Rightarrow> Fin 1
      | m # ms \<Rightarrow> foldl (fl_mul L) m ms)"

text \<open>
  The quantities the win rate is made of: the rows whose signal is 1, the rows whose
  previous row has signal 1, and among those the rows with a positive strategy return.
\<close>

definition days_held :: "series \<Rightarrow> nat" where
  "days_held sg = length (filter (\<lambda>x. x = Fin 1) sg)"

definition rows_after_signal :: "series \<Rightarrow> nat" where
  "rows_after_signal sg =
     length (filter (\<lambda>t. 1 \<le> t \<and> sg ! (t - 1) = Fin 1) [0..<length sg])"

definition winning_rows :: "series \<Rightarrow> series \<Rightarrow> nat" where
  "winning_rows sg sr =
     length (filter (\<lambda>t. 1 \<le> t \<and> sg ! (t - 1) = Fin 1 \<and> fl_gt (sr ! t) (Fin 0))
               [0..<length sg])"

text \<open>
  The win rate as the specification words it: among the rows whose previous row has
  signal 1, the fraction with a positive strategy return, in percent; 0 without trade-days.
\<close>

definition spec_win_rate :: "lib \<Rightarrow> series \<Rightarrow> series \<Rightarrow> fl" where
  "spec_win_rate L sg sr =
     (if days_held sg = 0 then Fin 0
      else fl_mul L (fl_div L (Fin (real (winning_rows sg sr)))
                             (Fin (real (rows_after_signal sg))))
                    (Fin 100))"

text \<open>
  The cell that holds the int64 sum \<open>v\<close> of a flow category in the merged table: the
  float64 nearest to \<open>v\<close> when the column was converted (\<open>float_col\<close>), the integer
  itself otherwise.
\<close>

definition stored :: "lib \<Rightarrow> bool \<Rightarrow> int \<Rightarrow> fl" where
  "stored L float_col v = (if float_col then rounded L (real_of_int v) else Fin (real_of_int v))"

text \<open>
  The table \<open>get_data\<close> merges from the five days of Scenario A and the flow records
  \<open>trust_only\<close>.
\<close>

definition scenario_A_trust :: frame where
  "scenario_A_trust =
     \<lparr>index = map to_datetime [1, 2, 3, 4, 5],
      cols = [(''Close'', [Fin 100, Fin 102, Fin 101, Fin 105, Fin 104]),
              (''High'', [Fin 101, Fin 103, Fin 102, Fin 106, Fin 105]),
              (''Low'', [Fin 99, Fin 100, Fin 100, Fin 101, Fin 103]),
              (''Open'', [Fin 100, Fin 100, Fin 102, Fin 101, Fin 105]),
              (''Volume'', [Fin 1000, Fin 1200, Fin 900, Fin 1500, Fin 1100]),
              (''Investment_Trust'', [Fin 200, Fin 0, Fin (- 30), Fin 0, Fin 0])]\<rparr>"

text \<open>Three rising closes with a positive net flow on every day.\<close>

definition demo3 :: frame where
  "demo3 = \<lparr>index = map to_datetime [1, 2, 3],
             cols = [(''Close'', [Fin 100, Fin 102, Fin 104]),
                     (''Foreign_Investor'', [Fin 1, Fin 1, Fin 1])]\<rparr>"

text \<open>
  Scenario A of the specification: five days of prices, and the table \<open>get_data\<close> merges
  from them when the flow provider has no record.
\<close>

definition scenario_A_price :: frame where
  "scenario_A_price =
     \<lparr>index = map to_datetime [1, 2, 3, 4, 5],
      cols = [(''Close'', [Fin 100, Fin 102, Fin 101, Fin 105, Fin 104]),
              (''High'', [Fin 101, Fin 103, Fin 102, Fin 106, Fin 105]),
              (''Low'', [Fin 99, Fin 100, Fin 100, Fin 101, Fin 103]),
              (''Open'', [Fin 100, Fin 100, Fin 102, Fin 101, Fin 105]),
              (''Volume'', [Fin 1000, Fin 1200, Fin 900, Fin 1500, Fin 1100])]\<rparr>"

definition scenario_A :: frame where
  "scenario_A = setcol scenario_A_price ''Foreign_Investor'' (replicate 5 (Fin 0))"

text \<open>Twenty-two rising closes with a positive net flow on every day.\<close>

definition demo22 :: frame where
  "demo22 = \<lparr>index = map (\<lambda>i. to_datetime (int i)) [0..<22],
              cols = [(''Close'', map (\<lambda>i. Fin (100 + real i)) [0..<22]),
                      (''Foreign_Investor'', replicate 22 (Fin 1))]\<rparr>"

text \<open>
  A single day of prices, and the table \<open>get_data\<close> merges from it when the flow provider
  has no record.
\<close>

definition one_day_price :: frame where
  "one_day_price =
     \<lparr>index = [to_datetime 1],
      cols = [(''Close'', [Fin 100]), (''High'', [Fin 101]), (''Low'', [Fin 99]),
              (''Open'', [Fin 100]), (''Volume'', [Fin 1000])]\<rparr>"


text \<open>
  Flow records that name one category only, not the one the backtest reads, with two
  records on the first day; one record is dated before the first price day.
\<close>

definition trust_only :: "chip list" where
  "trust_only =
     [\<lparr>date = 1, name = ''Investment_Trust'', buy = 500, sell = 200\<rparr>,
      \<lparr>date = 1, name = ''Investment_Trust'', buy = 50, sell = 150\<rparr>,
      \<lparr>date = 3, name = ''Investment_Trust'', buy = 10, sell = 40\<rparr>,
      \<lparr>date = 0, name = ''Investment_Trust'', buy = 7, sell = 1\<rparr>]"

text \<open>Three days of prices whose index carries a time zone.\<close>

definition zoned_price :: frame where
  "zoned_price =
     \<lparr>index = [\<lparr>wall = 1, tz = Some ''Asia/Taipei''\<rparr>, \<lparr>wall = 2, tz = Some ''Asia/Taipei''\<rparr>,
               \<lparr>wall = 3, tz = Some ''Asia/Taipei''\<rparr>],
      cols = [(''Close'', [Fin 100, Fin 102, Fin 104]), (''High'', [Fin 101, Fin 103, Fin 105]),
              (''Low'', [Fin 99, Fin 100, Fin 102]), (''Open'', [Fin 100, Fin 100, Fin 103]),
              (''Volume'', [Fin 1000, Fin 1200, Fin 900])]\<rparr>"

section \<open>Basic facts\<close>


subsection \<open>Cells\<close>

lemma rounded_not_NaN: "rounded L x \<noteq> NaN"
  by (simp add: rounded_def split: option.splits)

lemma fl_add_one_NaN_iff: "fl_add L (Fin 1) x = NaN \<longleftrightarrow> x = NaN"
  by (cases x) (simp_all add: rounded_not_NaN)



subsection \<open>Series\<close>

lemma length_shift1: "length (shift1 xs) = length xs"
  by (cases xs) (simp_all add: shift1_def)

lemma nth_shift1: "t < length xs \<Longrightarrow> shift1 xs ! t = (if t = 0 then NaN else xs ! (t - 1))"
proof (cases xs)
  case Nil
  then show "t < length xs \<Longrightarrow> ?thesis" by simp
next
  case (Cons a r)
  assume t: "t < length xs"
  have s: "shift1 xs = NaN # butlast xs"
    using Cons by (simp add: shift1_def)
  show ?thesis
  proof (cases t)
    case 0
    then show ?thesis by (simp add: s)
  next
    case (Suc n)
    with t have "n < length (butlast xs)" by simp
    then have "butlast xs ! n = xs ! n" by (rule nth_butlast)
    with Suc show ?thesis by (simp add: s)
  qed
qed

lemma length_series_mul: "length (series_mul L xs ys) = min (length xs) (length ys)"
  by (simp add: series_mul_def)

lemma nth_series_mul:
  "t < length xs \<Longrightarrow> t < length ys \<Longrightarrow> series_mul L xs ys ! t = fl_mul L (xs ! t) (ys ! t)"
  by (simp add: series_mul_def)

lemma length_series_div: "length (series_div L xs ys) = min (length xs) (length ys)"
  by (simp add: series_div_def)

lemma length_series_gt: "length (series_gt xs ys) = min (length xs) (length ys)"
  by (simp add: series_gt_def)

lemma length_series_and: "length (series_and xs ys) = min (length xs) (length ys)"
  by (simp add: series_and_def)

lemma length_rolling_mean: "length (rolling_mean L w xs) = length xs"
  by (simp add: rolling_mean_def)


lemma length_ffill_from: "length (ffill_from p xs) = length xs"
  by (induction xs arbitrary: p) simp_all

lemma length_pct_change: "length (pct_change L xs) = length xs"
  by (simp add: pct_change_def series_sub_scalar_def length_series_div length_shift1
      ffill_def length_ffill_from Let_def)

lemma length_np_cumprod_from: "length (np_cumprod_from L a xs) = length xs"
  by (induction xs arbitrary: a) simp_all

lemma length_np_cumprod: "length (np_cumprod L xs) = length xs"
  by (cases xs) (simp_all add: np_cumprod_def length_np_cumprod_from)

lemma length_cumprod: "length (cumprod L xs) = length xs"
  by (simp add: cumprod_def length_np_cumprod)

lemma length_signal:
  "length (astype_int (series_and (series_gt c m) (series_gt_scalar f z))) =
     min (min (length c) (length m)) (length f)"
  by (simp add: astype_int_def length_series_and length_series_gt series_gt_scalar_def)


lemma length_strategy_return:
  "length (strategy_return L s d) = min (length s) (length d)"
  by (simp add: strategy_return_def length_series_mul length_shift1)

lemma nth_strategy_return:
  "t < length s \<Longrightarrow> t < length d \<Longrightarrow>
     strategy_return L s d ! t = (if t = 0 then NaN else fl_mul L (s ! (t - 1)) (d ! t))"
  by (simp add: strategy_return_def nth_series_mul length_shift1 nth_shift1)

lemma np_cumprod_from_nth:
  "t < length xs \<Longrightarrow> np_cumprod_from L a xs ! t = foldl (fl_mul L) a (take (Suc t) xs)"
proof (induction xs arbitrary: a t)
  case Nil
  then show ?case by simp
next
  case (Cons x xs)
  then show ?case by (cases t) simp_all
qed

text \<open>The product of a non-empty list of factors, taken from left to right.\<close>

lemma np_cumprod_nth:
  "t < length xs \<Longrightarrow>
     np_cumprod L xs ! t =
       (case take (Suc t) xs of [] \<Rightarrow> Fin 1 | m # ms \<Rightarrow> foldl (fl_mul L) m ms)"
proof (cases xs)
  case Nil
  then show "t < length xs \<Longrightarrow> ?thesis" by simp
next
  case (Cons x r)
  then show "t < length xs \<Longrightarrow> ?thesis"
    by (cases t) (simp_all add: np_cumprod_def np_cumprod_from_nth)
qed

lemma cumprod_nth:
  assumes "t < length xs"
  shows "cumprod L xs ! t =
     (if xs ! t = NaN then NaN
      else (case map (\<lambda>x. if x = NaN then Fin 1 else x) (take (Suc t) xs) of
              [] \<Rightarrow> Fin 1 | m # ms \<Rightarrow> foldl (fl_mul L) m ms))"
  using assms
  by (simp add: cumprod_def length_np_cumprod np_cumprod_nth take_map)

subsection \<open>Frames\<close>

lemma getcol_setcol:
  "getcol (setcol f k v) k' = (if k' = k then Inr v else getcol f k')"
  by (simp add: getcol_def setcol_def update_conv')

lemma index_setcol: "index (setcol f k v) = index f"
  by (simp add: setcol_def)

lemma getcol_Inr_iff: "getcol f k = Inr c \<longleftrightarrow> map_of (cols f) k = Some c"
  by (simp add: getcol_def split: option.splits)

lemma getcol_Inl_iff: "getcol f k = Inl e \<longleftrightarrow> map_of (cols f) k = None \<and> e = KeyError k"
  by (auto simp add: getcol_def split: option.splits)

lemma wf_frame_getcol:
  "wf_frame f \<Longrightarrow> getcol f k = Inr c \<Longrightarrow> length c = length (index f)"
  by (auto simp add: wf_frame_def getcol_Inr_iff list_all_iff dest!: map_of_SomeD)

lemma bind_e_Inr: "bind_e (Inr x) k = k x"
  by (simp add: bind_e_def)

lemma bind_e_Inl: "bind_e (Inl e) k = Inl e"
  by (simp add: bind_e_def)

lemma bind_e_eq_Inr_iff: "bind_e m k = Inr y \<longleftrightarrow> (\<exists>x. m = Inr x \<and> k x = Inr y)"
  by (cases m) (simp_all add: bind_e_def)

subsection \<open>The table returned by \<open>run_backtest\<close>\<close>

lemma run_backtest_Inr:
  assumes "getcol df ''Close'' = Inr close" and "getcol df ''Foreign_Investor'' = Inr fi"
  shows "run_backtest L df w = Inr (backtest_frame L df w close fi)"
  using assms
  by (simp add: run_backtest_def body_def assign_MA_def assign_Daily_Return_def
      assign_Signal_def assign_Strategy_Return_def assign_Cum_Market_def
      assign_Cum_Strategy_def bind_e_Inr getcol_setcol backtest_frame_def Let_def)

lemma run_backtest_no_Close:
  assumes "getcol df ''Close'' = Inl e"
  shows "run_backtest L df w = Inl e"
  using assms
  by (simp add: run_backtest_def body_def assign_MA_def bind_e_Inl)

lemma run_backtest_no_flow:
  assumes "getcol df ''Close'' = Inr close" and "getcol df ''Foreign_Investor'' = Inl e"
  shows "run_backtest L df w = Inl e"
  using assms
  by (simp add: run_backtest_def body_def assign_MA_def assign_Daily_Return_def
      assign_Signal_def bind_e_Inr bind_e_Inl getcol_setcol Let_def)

lemma run_backtest_InrD:
  assumes "run_backtest L df w = Inr r"
  shows "\<exists>close fi. getcol df ''Close'' = Inr close \<and> getcol df ''Foreign_Investor'' = Inr fi
           \<and> r = backtest_frame L df w close fi"
proof (cases "getcol df ''Close''")
  case (Inl e)
  with assms show ?thesis by (simp add: run_backtest_no_Close)
next
  case c: (Inr close)
  show ?thesis
  proof (cases "getcol df ''Foreign_Investor''")
    case (Inl e)
    with assms c show ?thesis by (simp add: run_backtest_no_flow)
  next
    case (Inr fi)
    with assms c show ?thesis by (simp add: run_backtest_Inr)
  qed
qed

subsection \<open>Columns of the returned table\<close>

lemma backtest_frame_cols:
  fixes L df w close fi
  defines "r \<equiv> backtest_frame L df w close fi"
  defines "ma \<equiv> rolling_mean L w close"
  defines "dr \<equiv> pct_change L close"
  defines "sg \<equiv> astype_int (series_and (series_gt close ma) (series_gt_scalar fi (Fin 0)))"
  defines "sr \<equiv> strategy_return L sg dr"
  shows "getcol r ''MA'' = Inr ma"
    and "getcol r ''Daily_Return'' = Inr dr"
    and "getcol r ''Signal'' = Inr sg"
    and "getcol r ''Strategy_Return'' = Inr sr"
    and "getcol r ''Cum_Market'' = Inr (cumprod L (scalar_add L (Fin 1) dr))"
    and "getcol r ''Cum_Strategy'' = Inr (cumprod L (scalar_add L (Fin 1) sr))"
    and "index r = index df"
  unfolding r_def ma_def dr_def sg_def sr_def backtest_frame_def Let_def
  by (simp_all add: getcol_setcol index_setcol)

lemma backtest_frame_lengths:
  assumes "length close = n" and "length fi = n"
  shows "length (rolling_mean L w close) = n"
    and "length (pct_change L close) = n"
    and "length (astype_int (series_and (series_gt close (rolling_mean L w close))
                   (series_gt_scalar fi (Fin 0)))) = n"
    and "length (strategy_return L
                   (astype_int (series_and (series_gt close (rolling_mean L w close))
                      (series_gt_scalar fi (Fin 0)))) (pct_change L close)) = n"
  using assms
  by (simp_all add: length_rolling_mean length_pct_change length_signal
      length_strategy_return)

section \<open>The claims about the backtest\<close>

text \<open>
  C1. In every table \<open>run_backtest\<close> returns, the strategy return of row 0 is undefined
  and the strategy return of every later row \<open>t\<close> is the float64 product of the signal of
  row \<open>t - 1\<close> and the daily return of row \<open>t\<close>; replacing the signal of row \<open>t\<close> by
  any value leaves the strategy return of row \<open>t\<close> as it is.
\<close>

theorem strategy_return_uses_previous_signal:
  assumes "wf_frame df" and "run_backtest L df w = Inr r" and "t < length (index df)"
  shows "\<exists>sg dr sr. getcol r ''Signal'' = Inr sg \<and> getcol r ''Daily_Return'' = Inr dr
           \<and> getcol r ''Strategy_Return'' = Inr sr \<and> length sr = length (index df)
           \<and> sr ! 0 = NaN
           \<and> (1 \<le> t \<longrightarrow> sr ! t = fl_mul L (sg ! (t - 1)) (dr ! t))
           \<and> (\<forall>v. strategy_return L (sg[t := v]) dr ! t = sr ! t)"
proof -
  from assms(2) obtain close fi where
    c: "getcol df ''Close'' = Inr close" and f: "getcol df ''Foreign_Investor'' = Inr fi"
    and r: "r = backtest_frame L df w close fi"
    using run_backtest_InrD by blast
  let ?n = "length (index df)"
  have lc: "length close = ?n" and lf: "length fi = ?n"
    using assms(1) c f by (simp_all add: wf_frame_getcol)
  let ?dr = "pct_change L close"
  let ?sg = "astype_int (series_and (series_gt close (rolling_mean L w close))
               (series_gt_scalar fi (Fin 0)))"
  let ?sr = "strategy_return L ?sg ?dr"
  have ld: "length ?dr = ?n" and ls: "length ?sg = ?n" and lr: "length ?sr = ?n"
    using backtest_frame_lengths[OF lc lf] by simp_all
  have t: "t < length ?sg" "t < length ?dr" and z: "0 < length ?sg" "0 < length ?dr"
    unfolding ld ls using assms(3) by linarith+
  have row0: "?sr ! 0 = NaN"
    using nth_strategy_return[OF z] by simp
  have rowt: "1 \<le> t \<longrightarrow> ?sr ! t = fl_mul L (?sg ! (t - 1)) (?dr ! t)"
    using nth_strategy_return[OF t] by simp
  have alter: "strategy_return L (?sg[t := v]) ?dr ! t = ?sr ! t" for v
  proof -
    have "t < length (?sg[t := v])" using t by simp
    from nth_strategy_return[OF this t(2)] nth_strategy_return[OF t]
    show ?thesis by (cases t) simp_all
  qed
  show ?thesis
    unfolding r using backtest_frame_cols(2,3,4)[of L df w close fi] lr row0 rowt alter
    by blast
qed

theorem strategy_return_uses_previous_signal_witness:
  "\<exists>r sg dr sr. run_backtest (exact_lib False) demo3 2 = Inr r \<and> getcol r ''Signal'' = Inr sg
      \<and> getcol r ''Daily_Return'' = Inr dr \<and> getcol r ''Strategy_Return'' = Inr sr
      \<and> sg ! 1 = Fin 1 \<and> sr ! 0 = NaN \<and> sr ! 2 = fl_mul (exact_lib False) (sg ! 1) (dr ! 2)
      \<and> strategy_return (exact_lib False) (sg[2 := Fin 0]) dr ! 2 = sr ! 2"
proof -
  let ?r = "projr (run_backtest (exact_lib False) demo3 2)"
  have w: "wf_frame demo3" by code_simp
  have r: "run_backtest (exact_lib False) demo3 2 = Inr ?r" by code_simp
  have t: "2 < length (index demo3)" by code_simp
  from strategy_return_uses_previous_signal[OF w r t] obtain sg dr sr where
    h: "getcol ?r ''Signal'' = Inr sg" "getcol ?r ''Daily_Return'' = Inr dr"
       "getcol ?r ''Strategy_Return'' = Inr sr" "sr ! 0 = NaN"
       "sr ! 2 = fl_mul (exact_lib False) (sg ! (2 - 1)) (dr ! 2)"
       "strategy_return (exact_lib False) (sg[2 := Fin 0]) dr ! 2 = sr ! 2"
    by auto
  have "getcol ?r ''Signal'' = Inr [Fin 0, Fin 1, Fin 1]" by code_simp
  with h(1) have "sg ! 1 = Fin 1" by auto
  with r h show ?thesis by auto
qed

text \<open>
  C6. In every table \<open>run_backtest\<close> returns, the signal of row \<open>t\<close> is 1 exactly when the
  close of row \<open>t\<close> is strictly above the moving average of row \<open>t\<close> and the net flow of
  row \<open>t\<close> is strictly above 0, and it is 0 otherwise; a close equal to the moving average
  gives 0; the moving average is undefined at the first \<open>window - 1\<close> rows, hence at every
  row of a table shorter than the window, and wherever it is undefined the signal is 0.
\<close>


subsection \<open>Daily return and cumulative product\<close>

lemma fl_div_NaN_right: "fl_div L x NaN = NaN"
  by (cases x) simp_all

lemma nth_pct_change_0: "0 < length xs \<Longrightarrow> pct_change L xs ! 0 = NaN"
  by (simp add: pct_change_def Let_def series_sub_scalar_def series_div_def length_shift1
      nth_shift1 ffill_def length_ffill_from fl_div_NaN_right fl_sub_def)

lemma cumprod_one_plus_nth:
  assumes "t < length rs"
  shows "cumprod L (scalar_add L (Fin 1) rs) ! t =
           (if rs ! t = NaN then NaN else spec_equity L rs t)"
proof -
  have m: "map (\<lambda>x. if x = NaN then Fin 1 else x) (take (Suc t) (scalar_add L (Fin 1) rs)) =
           map (\<lambda>x. if x = NaN then Fin 1 else fl_add L (Fin 1) x) (take (Suc t) rs)"
    by (simp add: scalar_add_def take_map fl_add_one_NaN_iff)
  have "t < length (scalar_add L (Fin 1) rs)"
    using assms by (simp add: scalar_add_def)
  from cumprod_nth[OF this] show ?thesis
    unfolding m spec_equity_def using assms by (simp add: scalar_add_def fl_add_one_NaN_iff)
qed

text \<open>
  C2 as stated fails on Scenario A: the cumulative strategy column of the five-day table
  is undefined at row 0, where the specification's product is 1.
\<close>

theorem cumulative_defined_from_first_row_counterexample:
  "get_data (exact_lib False) (Inr scenario_A_price) (Inr []) = Inr (Some scenario_A)
   \<and> column_of (run_backtest (exact_lib False) scenario_A 20) ''Strategy_Return''
       = Inr [NaN, Fin 0, Fin 0, Fin 0, Fin 0]
   \<and> column_of (run_backtest (exact_lib False) scenario_A 20) ''Cum_Strategy''
       = Inr [NaN, Fin 1, Fin 1, Fin 1, Fin 1]
   \<and> column_of (run_backtest (exact_lib True) scenario_A 20) ''Cum_Strategy''
       = Inr [NaN, Fin 1, Fin 1, Fin 1, Fin 1]
   \<and> spec_equity (exact_lib False) [NaN, Fin 0, Fin 0, Fin 0, Fin 0] 0 = Fin 1"
  by code_simp

text \<open>
  C2, amended. In every table \<open>run_backtest\<close> returns and at every row \<open>t\<close>: when the daily
  return of row \<open>t\<close> is undefined the cumulative benchmark of row \<open>t\<close> is undefined, and
  otherwise it is the float64 product, taken from row 0 to row \<open>t\<close>, of
  \<open>1 + daily return\<close> with undefined returns counting as the multiplier 1. The same holds
  for the cumulative strategy and the strategy returns. Row 0 has neither return, so both
  cumulative columns are undefined at row 0.
\<close>

theorem cumulative_products:
  assumes "wf_frame df" and "run_backtest L df w = Inr r" and "t < length (index df)"
  shows "\<exists>dr sr cm cs. getcol r ''Daily_Return'' = Inr dr
           \<and> getcol r ''Strategy_Return'' = Inr sr
           \<and> getcol r ''Cum_Market'' = Inr cm \<and> getcol r ''Cum_Strategy'' = Inr cs
           \<and> length cm = length (index df) \<and> length cs = length (index df)
           \<and> cm ! t = (if dr ! t = NaN then NaN else spec_equity L dr t)
           \<and> cs ! t = (if sr ! t = NaN then NaN else spec_equity L sr t)
           \<and> dr ! 0 = NaN \<and> sr ! 0 = NaN \<and> cm ! 0 = NaN \<and> cs ! 0 = NaN"
proof -
  from assms(2) obtain close fi where
    c: "getcol df ''Close'' = Inr close" and f: "getcol df ''Foreign_Investor'' = Inr fi"
    and r: "r = backtest_frame L df w close fi"
    using run_backtest_InrD by blast
  let ?n = "length (index df)"
  have lc: "length close = ?n" and lf: "length fi = ?n"
    using assms(1) c f by (simp_all add: wf_frame_getcol)
  let ?dr = "pct_change L close"
  let ?sg = "astype_int (series_and (series_gt close (rolling_mean L w close))
               (series_gt_scalar fi (Fin 0)))"
  let ?sr = "strategy_return L ?sg ?dr"
  let ?cm = "cumprod L (scalar_add L (Fin 1) ?dr)"
  let ?cs = "cumprod L (scalar_add L (Fin 1) ?sr)"
  have ld: "length ?dr = ?n" and ls: "length ?sg = ?n" and lr: "length ?sr = ?n"
    using backtest_frame_lengths[OF lc lf] by simp_all
  have td: "t < length ?dr" and tr: "t < length ?sr"
    and zd: "0 < length ?dr" and zr: "0 < length ?sr" and zs: "0 < length ?sg"
    unfolding ld lr ls using assms(3) by linarith+
  have lcm: "length ?cm = ?n" and lcs: "length ?cs = ?n"
    by (simp_all add: length_cumprod scalar_add_def ld lr)
  have d0: "?dr ! 0 = NaN"
    using zd by (simp add: length_pct_change nth_pct_change_0)
  have s0: "?sr ! 0 = NaN"
    using nth_strategy_return[OF zs zd] by simp
  have cmt: "?cm ! t = (if ?dr ! t = NaN then NaN else spec_equity L ?dr t)"
    by (rule cumprod_one_plus_nth[OF td])
  have cst: "?cs ! t = (if ?sr ! t = NaN then NaN else spec_equity L ?sr t)"
    by (rule cumprod_one_plus_nth[OF tr])
  have cm0: "?cm ! 0 = NaN"
    using cumprod_one_plus_nth[OF zd] d0 by simp
  have cs0: "?cs ! 0 = NaN"
    using cumprod_one_plus_nth[OF zr] s0 by simp
  show ?thesis
    unfolding r
    using backtest_frame_cols(2,4,5,6)[of L df w close fi] lcm lcs cmt cst d0 s0 cm0 cs0
    by blast
qed

theorem cumulative_products_witness:
  "\<exists>r dr sr cm cs. run_backtest (exact_lib False) demo3 2 = Inr r
      \<and> getcol r ''Daily_Return'' = Inr dr \<and> getcol r ''Strategy_Return'' = Inr sr
      \<and> getcol r ''Cum_Market'' = Inr cm \<and> getcol r ''Cum_Strategy'' = Inr cs
      \<and> cm ! 0 = NaN \<and> cs ! 0 = NaN
      \<and> cm ! 2 = spec_equity (exact_lib False) dr 2 \<and> cm ! 2 = Fin (26 / 25)
      \<and> cs ! 2 = spec_equity (exact_lib False) sr 2 \<and> cs ! 2 = Fin (52 / 51)"
proof -
  let ?r = "projr (run_backtest (exact_lib False) demo3 2)"
  have w: "wf_frame demo3" by code_simp
  have r: "run_backtest (exact_lib False) demo3 2 = Inr ?r" by code_simp
  have t: "2 < length (index demo3)" by code_simp
  from cumulative_products[OF w r t] obtain dr sr cm cs where
    h: "getcol ?r ''Daily_Return'' = Inr dr" "getcol ?r ''Strategy_Return'' = Inr sr"
       "getcol ?r ''Cum_Market'' = Inr cm" "getcol ?r ''Cum_Strategy'' = Inr cs"
       "cm ! 0 = NaN" "cs ! 0 = NaN"
    and e: "cm ! 2 = (if dr ! 2 = NaN then NaN else spec_equity (exact_lib False) dr 2)"
       "cs ! 2 = (if sr ! 2 = NaN then NaN else spec_equity (exact_lib False) sr 2)"
    by auto
  have "getcol ?r ''Daily_Return'' = Inr [NaN, Fin (1 / 50), Fin (1 / 51)]"
    and "getcol ?r ''Strategy_Return'' = Inr [NaN, Fin 0, Fin (1 / 51)]"
    and "getcol ?r ''Cum_Market'' = Inr [NaN, Fin (51 / 50), Fin (26 / 25)]"
    and "getcol ?r ''Cum_Strategy'' = Inr [NaN, Fin 1, Fin (52 / 51)]"
    by code_simp+
  with h(1-4) have v: "dr ! 2 = Fin (1 / 51)" "sr ! 2 = Fin (1 / 51)"
    "cm ! 2 = Fin (26 / 25)" "cs ! 2 = Fin (52 / 51)"
    by auto
  from e v have "cm ! 2 = spec_equity (exact_lib False) dr 2"
    "cs ! 2 = spec_equity (exact_lib False) sr 2"
    by simp_all
  with r h v show ?thesis by auto
qed

subsection \<open>Execution in the store\<close>

lemma exec_at_frame:
  "exec_at ss a h = (r, h') \<Longrightarrow> length h' = length h \<and> (\<forall>b. b \<noteq> a \<longrightarrow> h' ! b = h ! b)"
proof (induction ss arbitrary: h)
  case Nil
  then show ?case by simp
next
  case (Cons s ss)
  show ?case
  proof (cases "s (h ! a)")
    case (Inl e)
    with Cons.prems show ?thesis by simp
  next
    case (Inr f)
    with Cons.prems have "exec_at ss a (h[a := f]) = (r, h')" by simp
    from Cons.IH[OF this] show ?thesis by simp
  qed
qed

lemma exec_at_result:
  "a < length h \<Longrightarrow> exec_at ss a h = (r, h') \<Longrightarrow>
     (case run_stmts ss (h ! a) of Inl e \<Rightarrow> r = Some e | Inr f \<Rightarrow> r = None \<and> h' ! a = f)"
proof (induction ss arbitrary: h)
  case Nil
  then show ?case by auto
next
  case (Cons s ss)
  show ?case
  proof (cases "s (h ! a)")
    case (Inl e)
    with Cons.prems show ?thesis by (simp add: bind_e_Inl)
  next
    case (Inr f)
    with Cons.prems have e: "exec_at ss a (h[a := f]) = (r, h')" by simp
    have l: "a < length (h[a := f])" using Cons.prems(1) by simp
    from Cons.IH[OF l e] Cons.prems(1) Inr show ?thesis by (simp add: bind_e_Inr)
  qed
qed

section \<open>The claim about the argument of \<open>run_backtest\<close>\<close>

text \<open>
  C9. \<open>run_backtest\<close> never changes its argument: called in any store on the address of
  any table, with any window, it leaves every frame that was in the store (the argument
  among them) exactly as it was, whether it returns or raises; the table it returns is a
  new frame, and holds what \<open>run_backtest\<close> computes from the value of the argument.
\<close>

theorem run_backtest_leaves_argument:
  assumes "df < length h"
  shows "\<exists>res h'. run_backtest_heap L h df w = (res, h')
           \<and> take (length h) h' = h \<and> h' ! df = h ! df
           \<and> (case run_backtest L (h ! df) w of
                 Inl e \<Rightarrow> res = Inl e
               | Inr r \<Rightarrow> res = Inr (length h) \<and> h' ! length h = r)"
proof -
  let ?h0 = "h @ [h ! df]"
  obtain r h1 where e: "exec_at (body L w) (length h) ?h0 = (r, h1)"
    by (cases "exec_at (body L w) (length h) ?h0") blast
  have run: "run_backtest_heap L h df w = (case r of Some e \<Rightarrow> Inl e | None \<Rightarrow> Inr (length h), h1)"
    by (simp add: run_backtest_heap_def df_copy_def e)
  from exec_at_frame[OF e] have len: "length h1 = Suc (length h)"
    and same: "\<And>b. b \<noteq> length h \<Longrightarrow> h1 ! b = ?h0 ! b"
    by simp_all
  have pre: "take (length h) h1 = h"
  proof (rule nth_equalityI)
    show "length (take (length h) h1) = length h" using len by simp
  next
    fix i assume "i < length (take (length h) h1)"
    then have i: "i < length h" by simp
    then have "h1 ! i = ?h0 ! i" using same by simp
    with i show "take (length h) h1 ! i = h ! i" by (simp add: nth_append)
  qed
  have arg: "h1 ! df = h ! df"
    using same[of df] assms by (simp add: nth_append)
  have a: "length h < length ?h0" by simp
  from exec_at_result[OF a e]
  have res: "case run_backtest L (h ! df) w of
               Inl e \<Rightarrow> (case r of Some e \<Rightarrow> Inl e | None \<Rightarrow> Inr (length h)) = Inl e
             | Inr f \<Rightarrow> (case r of Some e \<Rightarrow> Inl e | None \<Rightarrow> Inr (length h)) = Inr (length h)
                        \<and> h1 ! length h = f"
    by (auto simp add: run_backtest_def split: sum.splits)
  from run pre arg res show ?thesis by blast
qed

theorem run_backtest_leaves_argument_witness:
  "\<exists>res h'. run_backtest_heap (exact_lib False) [demo3] 0 2 = (res, h')
      \<and> take 1 h' = [demo3] \<and> h' ! 0 = demo3 \<and> res = Inr 1
      \<and> Inr (h' ! 1) = run_backtest (exact_lib False) demo3 2 \<and> h' ! 1 \<noteq> demo3"
proof -
  have l: "0 < length [demo3]" by simp
  have r: "run_backtest (exact_lib False) demo3 2 = Inr (projr (run_backtest (exact_lib False) demo3 2))"
    by code_simp
  have d: "projr (run_backtest (exact_lib False) demo3 2) \<noteq> demo3" by code_simp
  from run_backtest_leaves_argument[OF l, of "exact_lib False" 2] r d show ?thesis
    by (auto split: sum.splits)
qed

subsection \<open>Counting rows\<close>

lemma set_astype_int: "set (astype_int bs) \<subseteq> {Fin 0, Fin 1}"
  by (auto simp add: astype_int_def)

lemma sum_val_signal:
  "set xs \<subseteq> {Fin 0, Fin 1} \<Longrightarrow> sum_list (map val xs) = real (days_held xs)"
proof (induction xs)
  case Nil
  then show ?case by (simp add: days_held_def)
next
  case (Cons x xs)
  then have x: "x = Fin 0 \<or> x = Fin 1" and xs: "set xs \<subseteq> {Fin 0, Fin 1}" by auto
  from x Cons.IH[OF xs] show ?case by (auto simp add: days_held_def)
qed

lemma int_sum_signal:
  "set sg \<subseteq> {Fin 0, Fin 1} \<Longrightarrow> int_sum sg = Fin (real (days_held sg))"
  by (simp add: int_sum_def sum_val_signal)

lemma length_filter_positions:
  "length (filter P xs) = length (filter (\<lambda>i. P (xs ! i)) [0..<length xs])"
proof -
  have "filter P xs = filter P (map (\<lambda>i. xs ! i) [0..<length xs])"
    by (simp add: map_nth)
  also have "length \<dots> = length (filter (\<lambda>i. P (xs ! i)) [0..<length xs])"
    by (simp add: filter_map comp_def)
  finally show ?thesis .
qed

lemma fl_eq_Fin: "fl_eq x (Fin a) \<longleftrightarrow> x = Fin a"
  by (cases x) auto

lemma count_true_wins:
  assumes "length sr = length sg"
  shows "count_true (series_and (series_eq_scalar (shift1 sg) (Fin 1))
                                (series_gt_scalar sr (Fin 0))) = winning_rows sg sr"
proof -
  let ?bs = "series_and (series_eq_scalar (shift1 sg) (Fin 1)) (series_gt_scalar sr (Fin 0))"
  have l: "length ?bs = length sg"
    using assms by (simp add: series_and_def series_eq_scalar_def series_gt_scalar_def length_shift1)
  have n: "?bs ! t = (1 \<le> t \<and> sg ! (t - 1) = Fin 1 \<and> fl_gt (sr ! t) (Fin 0))"
    if "t < length sg" for t
    using that assms
    by (auto simp add: series_and_def series_eq_scalar_def series_gt_scalar_def length_shift1
        nth_shift1 fl_eq_Fin)
  have "count_true ?bs = length (filter (\<lambda>i. ?bs ! i) [0..<length ?bs])"
    unfolding count_true_def by (rule length_filter_positions)
  also have "\<dots> = length (filter (\<lambda>t. 1 \<le> t \<and> sg ! (t - 1) = Fin 1 \<and> fl_gt (sr ! t) (Fin 0))
                         [0..<length sg])"
    unfolding l by (rule arg_cong[where f = length], rule filter_cong) (simp_all add: n)
  finally show ?thesis by (simp add: winning_rows_def)
qed

lemma iloc_last_Inr: "xs \<noteq> [] \<Longrightarrow> iloc_last xs = Inr (last xs)"
  by (cases xs) (simp_all add: iloc_last_def)

text \<open>The metrics of a returned table, in terms of its columns.\<close>

lemma metrics_of_columns:
  assumes "getcol r ''Cum_Strategy'' = Inr cs" and "getcol r ''Cum_Market'' = Inr cm"
    and "getcol r ''Signal'' = Inr sg" and "getcol r ''Strategy_Return'' = Inr sr"
    and "cs \<noteq> []" and "cm \<noteq> []" and "set sg \<subseteq> {Fin 0, Fin 1}" and "length sr = length sg"
  shows "metrics_of L r =
           Inr \<lparr>total_return = fl_mul L (fl_sub L (last cs) (Fin 1)) (Fin 100),
                market_return = fl_mul L (fl_sub L (last cm) (Fin 1)) (Fin 100),
                trade_days = Fin (real (days_held sg)),
                win_rate = (if days_held sg = 0 then Fin 0
                            else fl_mul L (fl_div L (Fin (real (winning_rows sg sr)))
                                                   (Fin (real (days_held sg))))
                                          (Fin 100))\<rparr>"
  using assms
  by (simp add: metrics_of_def bind_e_Inr iloc_last_Inr int_sum_signal count_true_wins Let_def)

lemma rounded_exact: "round64 L = Some \<Longrightarrow> rounded L x = Fin x"
  by (simp add: rounded_def)

text \<open>The metrics of the table \<open>run_backtest\<close> returns for a table with at least one row.\<close>

lemma metrics_of_backtest_frame:
  fixes L df w close fi
  defines "dr \<equiv> pct_change L close"
  defines "sg \<equiv> astype_int (series_and (series_gt close (rolling_mean L w close))
                   (series_gt_scalar fi (Fin 0)))"
  defines "sr \<equiv> strategy_return L sg dr"
  defines "cm \<equiv> cumprod L (scalar_add L (Fin 1) dr)"
  defines "cs \<equiv> cumprod L (scalar_add L (Fin 1) sr)"
  assumes n: "index df \<noteq> []" and lc: "length close = length (index df)"
    and lf: "length fi = length (index df)"
  shows "metrics_of L (backtest_frame L df w close fi) =
           Inr \<lparr>total_return = fl_mul L (fl_sub L (last cs) (Fin 1)) (Fin 100),
                market_return = fl_mul L (fl_sub L (last cm) (Fin 1)) (Fin 100),
                trade_days = Fin (real (days_held sg)),
                win_rate = (if days_held sg = 0 then Fin 0
                            else fl_mul L (fl_div L (Fin (real (winning_rows sg sr)))
                                                   (Fin (real (days_held sg))))
                                          (Fin 100))\<rparr>"
proof -
  have ld: "length dr = length (index df)" and ls: "length sg = length (index df)"
    and lr: "length sr = length (index df)"
    unfolding dr_def sg_def sr_def using backtest_frame_lengths[OF lc lf] by simp_all
  have ne: "cs \<noteq> []" "cm \<noteq> []"
    unfolding cs_def cm_def using n ld lr
    by (metis length_0_conv length_cumprod length_map scalar_add_def)+
  show ?thesis
    unfolding cs_def cm_def sr_def sg_def dr_def
    by (rule metrics_of_columns[OF backtest_frame_cols(6) backtest_frame_cols(5)
          backtest_frame_cols(3) backtest_frame_cols(4)
          ne[unfolded cs_def cm_def sr_def sg_def dr_def] set_astype_int])
       (simp add: lr[unfolded sr_def sg_def dr_def] ls[unfolded sg_def])
qed

section \<open>The claims about the summary metrics\<close>

text \<open>
  C4 as stated fails on twenty-two rising days with the default window: the signal is 1
  on the last three rows, so there are three trade-days but only two rows whose previous
  row has signal 1; both win. The program reports 2 of 3, the fraction worded in the
  claim is 2 of 2.
\<close>

theorem win_rate_fraction_counterexample:
  "column_of (run_backtest (exact_lib False) demo22 20) ''Signal''
       = Inr (replicate 19 (Fin 0) @ [Fin 1, Fin 1, Fin 1])
   \<and> column_of (run_backtest (exact_lib False) demo22 20) ''Strategy_Return''
       = Inr (NaN # replicate 19 (Fin 0) @ [Fin (1 / 119), Fin (1 / 120)])
   \<and> backtest_tab (exact_lib False) demo22
       = Inr \<lparr>total_return = Fin (200 / 119), market_return = Fin 21,
              trade_days = Fin 3, win_rate = Fin (200 / 3)\<rparr>
   \<and> spec_win_rate (exact_lib False) (replicate 19 (Fin 0) @ [Fin 1, Fin 1, Fin 1])
        (NaN # replicate 19 (Fin 0) @ [Fin (1 / 119), Fin (1 / 120)]) = Fin 100"
  by code_simp

text \<open>
  C4, amended. For every table \<open>run_backtest\<close> returns from a table with at least one
  row, trade-days is the number of rows whose own signal is 1; the win rate is 0 when
  there are no trade-days, and otherwise the number of rows whose previous row has signal
  1 and whose own strategy return is positive, divided by trade-days and multiplied by
  100 in float64 arithmetic; in exact arithmetic that is 100 times the quotient.
\<close>

theorem trade_days_and_win_rate:
  assumes "wf_frame df" and "index df \<noteq> []" and "run_backtest L df w = Inr r"
  shows "\<exists>m sg sr. getcol r ''Signal'' = Inr sg \<and> getcol r ''Strategy_Return'' = Inr sr
           \<and> metrics_of L r = Inr m
           \<and> trade_days m = Fin (real (days_held sg))
           \<and> win_rate m = (if days_held sg = 0 then Fin 0
                            else fl_mul L (fl_div L (Fin (real (winning_rows sg sr)))
                                                   (Fin (real (days_held sg))))
                                          (Fin 100))
           \<and> (round64 L = Some \<longrightarrow>
                win_rate m = (if days_held sg = 0 then Fin 0
                              else Fin (real (winning_rows sg sr) / real (days_held sg) * 100)))"
proof -
  from assms(3) obtain close fi where
    c: "getcol df ''Close'' = Inr close" and f: "getcol df ''Foreign_Investor'' = Inr fi"
    and r: "r = backtest_frame L df w close fi"
    using run_backtest_InrD by blast
  have lc: "length close = length (index df)" and lf: "length fi = length (index df)"
    using assms(1) c f by (simp_all add: wf_frame_getcol)
  let ?sg = "astype_int (series_and (series_gt close (rolling_mean L w close))
               (series_gt_scalar fi (Fin 0)))"
  let ?sr = "strategy_return L ?sg (pct_change L close)"
  let ?wr = "if days_held ?sg = 0 then Fin 0
             else fl_mul L (fl_div L (Fin (real (winning_rows ?sg ?sr)))
                                    (Fin (real (days_held ?sg)))) (Fin 100)"
  note m = metrics_of_backtest_frame[OF assms(2) lc lf, of L w]
  have ex: "?wr = (if days_held ?sg = 0 then Fin 0
                   else Fin (real (winning_rows ?sg ?sr) / real (days_held ?sg) * 100))"
    if "round64 L = Some"
    by (simp add: rounded_exact[OF that])
  show ?thesis
    unfolding r m using backtest_frame_cols(3,4)[of L df w close fi] ex by simp
qed

theorem trade_days_and_win_rate_witness:
  "\<exists>r m sg sr. run_backtest (exact_lib False) demo22 20 = Inr r
      \<and> getcol r ''Signal'' = Inr sg \<and> getcol r ''Strategy_Return'' = Inr sr
      \<and> metrics_of (exact_lib False) r = Inr m \<and> days_held sg = 3 \<and> winning_rows sg sr = 2
      \<and> trade_days m = Fin 3 \<and> win_rate m = Fin (200 / 3)"
proof -
  let ?r = "projr (run_backtest (exact_lib False) demo22 20)"
  have w: "wf_frame demo22" by code_simp
  have i: "index demo22 \<noteq> []" by code_simp
  have r: "run_backtest (exact_lib False) demo22 20 = Inr ?r" by code_simp
  have e: "round64 (exact_lib False) = Some" by (simp add: exact_lib_def)
  from trade_days_and_win_rate[OF w i r] e obtain m sg sr where
    h: "getcol ?r ''Signal'' = Inr sg" "getcol ?r ''Strategy_Return'' = Inr sr"
       "metrics_of (exact_lib False) ?r = Inr m" "trade_days m = Fin (real (days_held sg))"
       "win_rate m = (if days_held sg = 0 then Fin 0
                      else Fin (real (winning_rows sg sr) / real (days_held sg) * 100))"
    by blast
  have "getcol ?r ''Signal'' = Inr (replicate 19 (Fin 0) @ [Fin 1, Fin 1, Fin 1])"
    and "getcol ?r ''Strategy_Return''
           = Inr (NaN # replicate 19 (Fin 0) @ [Fin (1 / 119), Fin (1 / 120)])"
    by code_simp+
  with h(1,2) have sg: "sg = replicate 19 (Fin 0) @ [Fin 1, Fin 1, Fin 1]"
    and sr: "sr = NaN # replicate 19 (Fin 0) @ [Fin (1 / 119), Fin (1 / 120)]"
    by auto
  have d: "days_held sg = 3" unfolding sg by code_simp
  have v: "winning_rows sg sr = 2" unfolding sg sr by code_simp
  from h(4,5) d v have "trade_days m = Fin 3" "win_rate m = Fin (200 / 3)" by simp_all
  with r h d v show ?thesis by blast
qed

subsection \<open>Where a metric is NaN\<close>









section \<open>The claims about \<open>get_data\<close>\<close>

text \<open>
  C5. \<open>get_data\<close> returns \<open>None\<close> exactly when the price call returns an empty table. An
  exception of the price call is the result of \<open>get_data\<close>, unchanged; so is an exception
  of the flow call, which is made exactly when the price table is not empty. In neither
  case is the result \<open>None\<close>.
\<close>

theorem get_data_no_data_and_failures:
  "(get_data L p c = Inr None \<longleftrightarrow> (\<exists>df. p = Inr df \<and> df_empty df))
   \<and> (p = Inl e \<longrightarrow> get_data L p c = Inl e)
   \<and> (\<forall>df. p = Inr df \<and> \<not> df_empty df \<and> c = Inl e \<longrightarrow> get_data L p c = Inl e)"
proof (intro conjI allI impI)
  show "get_data L p c = Inr None \<longleftrightarrow> (\<exists>df. p = Inr df \<and> df_empty df)"
  proof (cases p)
    case (Inl x)
    then show ?thesis by (simp add: get_data_def bind_e_Inl)
  next
    case p: (Inr df)
    show ?thesis
    proof (cases "df_empty df")
      case True
      with p show ?thesis by (simp add: get_data_def bind_e_Inr)
    next
      case False
      with p show ?thesis
        by (cases c) (auto simp add: get_data_def bind_e_def Let_def split: sum.splits)
    qed
  qed
next
  assume "p = Inl e"
  then show "get_data L p c = Inl e" by (simp add: get_data_def bind_e_Inl)
next
  fix df assume "p = Inr df \<and> \<not> df_empty df \<and> c = Inl e"
  then show "get_data L p c = Inl e" by (simp add: get_data_def bind_e_Inl bind_e_Inr)
qed

theorem get_data_no_data_and_failures_witness:
  "get_data (exact_lib False) (Inr \<lparr>index = [], cols = []\<rparr>) (Inl (ProviderError ''unreachable'')) = Inr None
   \<and> df_empty \<lparr>index = [], cols = []\<rparr>
   \<and> get_data (exact_lib False) (Inl (ProviderError ''timeout'')) (Inr []) = Inl (ProviderError ''timeout'')
   \<and> \<not> df_empty one_day_price
   \<and> get_data (exact_lib False) (Inr one_day_price) (Inl (ProviderError ''unreachable''))
        = Inl (ProviderError ''unreachable'')"
proof -
  have e: "df_empty \<lparr>index = [], cols = []\<rparr>" by (simp add: df_empty_def)
  have n: "\<not> df_empty one_day_price" by code_simp
  from get_data_no_data_and_failures
         [of "exact_lib False" "Inr \<lparr>index = [], cols = []\<rparr>"
             "Inl (ProviderError ''unreachable'')"] e
  have a: "get_data (exact_lib False) (Inr \<lparr>index = [], cols = []\<rparr>) (Inl (ProviderError ''unreachable''))
             = Inr None"
    by blast
  from get_data_no_data_and_failures
         [of "exact_lib False" "Inl (ProviderError ''timeout'')" "Inr []"
             "ProviderError ''timeout''"]
  have b: "get_data (exact_lib False) (Inl (ProviderError ''timeout'')) (Inr []) = Inl (ProviderError ''timeout'')"
    by blast
  from get_data_no_data_and_failures
         [of "exact_lib False" "Inr one_day_price" "Inl (ProviderError ''unreachable'')"
             "ProviderError ''unreachable''"] n
  have c: "get_data (exact_lib False) (Inr one_day_price) (Inl (ProviderError ''unreachable''))
             = Inl (ProviderError ''unreachable'')"
    by blast
  from a b c e n show ?thesis by blast
qed

text \<open>
  C7. For every price table that is not empty, \<open>get_data\<close> with a flow call that returns
  no record returns a merged table with the rows of the price table and a column
  \<open>Foreign_Investor\<close> that is as long as the price table and 0 in every row.
\<close>

theorem empty_flow_zero_filled:
  assumes "\<not> df_empty price"
  shows "\<exists>m fi. get_data L (Inr price) (Inr []) = Inr (Some m)
           \<and> index m = index price
           \<and> getcol m ''Foreign_Investor'' = Inr fi
           \<and> length fi = length (index price) \<and> (\<forall>x \<in> set fi. x = Fin 0)"
  using assms
  by (simp add: get_data_def bind_e_Inr getcol_setcol index_setcol)

theorem empty_flow_zero_filled_witness:
  "\<exists>m fi. get_data (exact_lib False) (Inr scenario_A_price) (Inr []) = Inr (Some m)
      \<and> index m = index scenario_A_price
      \<and> getcol m ''Foreign_Investor'' = Inr fi
      \<and> length fi = 5 \<and> fi = [Fin 0, Fin 0, Fin 0, Fin 0, Fin 0]"
proof -
  have n: "\<not> df_empty scenario_A_price" by code_simp
  have l: "length (index scenario_A_price) = 5" by code_simp
  from empty_flow_zero_filled[OF n, of "exact_lib False"] obtain m fi where
    h: "get_data (exact_lib False) (Inr scenario_A_price) (Inr []) = Inr (Some m)"
       "index m = index scenario_A_price" "getcol m ''Foreign_Investor'' = Inr fi"
       "length fi = length (index scenario_A_price)" "\<forall>x \<in> set fi. x = Fin 0"
    by blast
  have "replicate (length fi) (Fin 0) = fi"
    using h(5) by (rule replicate_length_same)
  with h(4) l have "fi = replicate 5 (Fin 0)" by simp
  also have "\<dots> = [Fin 0, Fin 0, Fin 0, Fin 0, Fin 0]" by code_simp
  finally have f: "fi = [Fin 0, Fin 0, Fin 0, Fin 0, Fin 0]" .
  have "length fi = 5" unfolding f by simp
  with h(1,2,3) f show ?thesis by blast
qed

subsection \<open>The joined table\<close>

lemma getcol_fillna0:
  "getcol (fillna0 f) k = (case getcol f k of Inl e \<Rightarrow> Inl e | Inr c \<Rightarrow> Inr (fillna0_series c))"
  by (simp add: getcol_def fillna0_def map_of_map split: option.splits)

lemma index_fillna0: "index (fillna0 f) = index f"
  by (simp add: fillna0_def)

lemma length_fillna0_series: "length (fillna0_series c) = length c"
  by (simp add: fillna0_series_def)

lemma nth_fillna0_series:
  "t < length c \<Longrightarrow> fillna0_series c ! t = (if c ! t = NaN then Fin 0 else c ! t)"
  by (simp add: fillna0_series_def)

lemma join_left_InrD:
  assumes "join_left L ri l r = Inr j"
  shows "index j = index l"
    and "cols j = cols l @ map (\<lambda>(n, c). (n, join_column L ri l r c)) (cols r)"
    and "set (map fst (cols l)) \<inter> set (map fst (cols r)) = {}"
  using assms by (auto simp add: join_left_def list_ex_iff split: if_splits)

lemma getcol_join_left_old:
  assumes "join_left L ri l r = Inr j" and "getcol l k = Inr c"
  shows "getcol j k = Inr c"
  using assms(2) unfolding join_left_InrD(2)[OF assms(1)] getcol_def
  by (simp add: map_add_def map_of_map split: option.splits)

lemma getcol_join_left_new:
  assumes "join_left L ri l r = Inr j" and "k \<notin> set (map fst (cols l))"
  shows "getcol j k = (case getcol r k of Inl e \<Rightarrow> Inl e
                       | Inr c \<Rightarrow> Inr (join_column L ri l r c))"
proof -
  have "map_of (cols l) k = None"
    using assms(2) by (simp add: map_of_eq_None_iff)
  then show ?thesis
    unfolding join_left_InrD(2)[OF assms(1)] getcol_def
    by (simp add: map_add_def map_of_map split: option.splits)
qed

lemma set_pivot_names: "set (pivot_names chips) = set (map name chips)"
  by (simp add: pivot_names_def)

lemma set_pivot_dates: "set (pivot_dates chips) = set (map date chips)"
  by (simp add: pivot_dates_def)

lemma getcol_pivot_table:
  "getcol (pivot_table L chips) n =
     (if n \<in> set (map name chips)
      then Inr (map (\<lambda>d. pivot_cell L chips d n) (pivot_dates chips))
      else Inl (KeyError n))"
  using set_pivot_names[of chips]
  by (simp add: getcol_def pivot_table_def map_of_map_restrict restrict_map_def)

lemma pivot_table_names: "map fst (cols (fillna0 (pivot_table L chips))) = pivot_names chips"
  by (simp add: fillna0_def pivot_table_def comp_def case_prod_beta)

lemma tz_localize_None_to_datetime: "tz_localize_None s = to_datetime (wall s)"
  by (simp add: tz_localize_None_def to_datetime_def)

lemma wall_tz_localize_None: "wall (tz_localize_None s) = wall s"
  by (simp add: tz_localize_None_def)

lemma map_of_stamped:
  "map_of (zip (map to_datetime ds) (map g ds)) (to_datetime x) =
     (if x \<in> set ds then Some (g x) else None)"
  by (induction ds) (auto simp add: to_datetime_def)

lemma flow_recorded_iff:
  "flow_recorded chips d n \<longleftrightarrow> (\<exists>c \<in> set chips. date c = d \<and> name c = n)"
  by (simp add: flow_recorded_def list_ex_iff)

lemma flow_recorded_date: "flow_recorded chips d n \<Longrightarrow> d \<in> set (pivot_dates chips)"
  by (auto simp add: flow_recorded_iff set_pivot_dates)

lemma pivot_gap_iff:
  "pivot_gap chips \<longleftrightarrow>
     (\<exists>d \<in> set (map date chips). \<exists>n \<in> set (map name chips). \<not> flow_recorded chips d n)"
  by (simp add: pivot_gap_def list_ex_iff set_pivot_dates set_pivot_names)

lemma stored_not_NaN: "stored L b v \<noteq> NaN"
  by (simp add: stored_def rounded_not_NaN)

lemma join_missing_iff:
  "join_missing (price\<lparr>index := map tz_localize_None (index price)\<rparr>)
                (fillna0 (pivot_table L chips))
     \<longleftrightarrow> (\<exists>s \<in> set (index price). wall s \<notin> set (map date chips))"
proof -
  have "tz_localize_None s \<in> to_datetime ` set (pivot_dates chips)
          \<longleftrightarrow> wall s \<in> set (pivot_dates chips)" for s
    by (auto simp add: tz_localize_None_to_datetime to_datetime_def)
  then show ?thesis
    by (simp add: join_missing_def list_ex_iff fillna0_def pivot_table_def set_pivot_dates)
qed

text \<open>
  A cell of a flow column after the pivot, its fill, the join and its fill, at a price
  row with stamp \<open>s\<close>.
\<close>

lemma joined_cell:
  fixes L chips n price s
  defines "left \<equiv> price\<lparr>index := map tz_localize_None (index price)\<rparr>"
  defines "right \<equiv> fillna0 (pivot_table L chips)"
  defines "c \<equiv> fillna0_series (map (\<lambda>d. pivot_cell L chips d n) (pivot_dates chips))"
  defines "v \<equiv> (if \<not> pivot_gap chips \<and> join_missing left right
                 then as_float64 L (lookup_row right c (tz_localize_None s))
                 else lookup_row right c (tz_localize_None s))"
  assumes n: "n \<in> set (map name chips)"
  shows "(if v = NaN then Fin 0 else v) =
           (if flow_recorded chips (wall s) n
            then stored L (pivot_gap chips \<or> join_missing left right)
                   (flow_on chips (wall s) n)
            else Fin 0)"
proof -
  let ?g = "\<lambda>d. if pivot_cell L chips d n = NaN then Fin 0 else pivot_cell L chips d n"
  have i: "index right = map to_datetime (pivot_dates chips)"
    by (simp add: right_def fillna0_def pivot_table_def)
  have c: "c = map ?g (pivot_dates chips)"
    by (simp add: c_def fillna0_series_def)
  have l: "lookup_row right c (tz_localize_None s)
           = (if wall s \<in> set (pivot_dates chips) then ?g (wall s) else NaN)"
    unfolding lookup_row_def i c tz_localize_None_to_datetime map_of_stamped by simp
  show ?thesis
  proof (cases "flow_recorded chips (wall s) n")
    case True
    then have d: "wall s \<in> set (pivot_dates chips)" by (rule flow_recorded_date)
    show ?thesis
      unfolding v_def l using True d
      by (simp add: pivot_cell_def stored_def rounded_not_NaN)
  next
    case False
    show ?thesis
    proof (cases "wall s \<in> set (pivot_dates chips)")
      case d: True
      then have "pivot_gap chips"
        using False n unfolding pivot_gap_iff set_pivot_dates by blast
      with False d show ?thesis
        unfolding v_def l by (simp add: pivot_cell_def)
    next
      case d: False
      with False show ?thesis
        unfolding v_def l by simp
    qed
  qed
qed

text \<open>The table \<open>get_data\<close> returns when the flow call returns records.\<close>

lemma get_data_joined:
  assumes "get_data L (Inr price) (Inr chips) = Inr (Some m)" and "chips \<noteq> []"
  shows "\<exists>j. join_left L (\<not> pivot_gap chips)
               (price\<lparr>index := map tz_localize_None (index price)\<rparr>)
               (fillna0 (pivot_table L chips)) = Inr j \<and> m = fillna0 j"
  using assms
  by (auto simp add: get_data_def bind_e_def Let_def split: sum.splits if_splits)

lemma get_data_empty_flow:
  assumes "get_data L (Inr price) (Inr []) = Inr (Some m)"
  shows "m = setcol price ''Foreign_Investor'' (replicate (length (index price)) (Fin 0))"
  using assms
  by (auto simp add: get_data_def bind_e_def Let_def split: sum.splits if_splits)

lemma getcol_index_update: "getcol (f\<lparr>index := i\<rparr>) k = getcol f k"
  by (simp add: getcol_def)

text \<open>
  C3. For every merged table \<open>get_data\<close> returns, the dates of the merged rows are the
  dates of the price rows, in the same order, none dropped and none added. When the flow
  call returns records, the merged index is the price index with the time zone dropped,
  and every flow category has a column as long as the price table in which no cell is
  NaN: the cell at a price row is 0 when no flow record of the category is dated on the
  zone-free date of that row, and otherwise the int64 sum of \<open>buy - sell\<close> over the flow
  records of the category dated on that date (as the integer, or as the float64 nearest
  to it when the column was converted because a category has no record on some flow date
  or a price date has no flow record). A flow record dated on no price date appears
  nowhere. When the flow call returns no record, the column \<open>Foreign_Investor\<close> is 0 at
  every price row.
\<close>

theorem merged_rows_follow_price_dates:
  assumes "get_data L (Inr price) (Inr chips) = Inr (Some m)"
  shows "map wall (index m) = map wall (index price)
         \<and> (chips = [] \<longrightarrow> index m = index price
               \<and> getcol m ''Foreign_Investor'' = Inr (replicate (length (index price)) (Fin 0)))
         \<and> (chips \<noteq> [] \<longrightarrow> index m = map tz_localize_None (index price))
         \<and> (\<forall>n \<in> set (map name chips). \<exists>col. getcol m n = Inr col
               \<and> length col = length (index price)
               \<and> (\<forall>t < length (index price). col ! t \<noteq> NaN \<and>
                     col ! t =
                       (if flow_recorded chips (wall (index price ! t)) n
                        then stored L (pivot_gap chips
                                       \<or> (\<exists>s \<in> set (index price). wall s \<notin> set (map date chips)))
                               (flow_on chips (wall (index price ! t)) n)
                        else Fin 0)))"
proof (cases "chips = []")
  case True
  from get_data_empty_flow[OF assms[unfolded True]]
  have m: "m = setcol price ''Foreign_Investor'' (replicate (length (index price)) (Fin 0))" .
  show ?thesis unfolding m using True by (simp add: index_setcol getcol_setcol)
next
  case False
  let ?l = "price\<lparr>index := map tz_localize_None (index price)\<rparr>"
  let ?r = "fillna0 (pivot_table L chips)"
  let ?ri = "\<not> pivot_gap chips"
  let ?miss = "\<exists>s \<in> set (index price). wall s \<notin> set (map date chips)"
  from get_data_joined[OF assms False] obtain j where
    j: "join_left L ?ri ?l ?r = Inr j" and m: "m = fillna0 j"
    by blast
  have idx: "index m = map tz_localize_None (index price)"
    unfolding m by (simp add: index_fillna0 join_left_InrD(1)[OF j])
  have walls: "map wall (index m) = map wall (index price)"
    unfolding idx by (simp add: wall_tz_localize_None comp_def)
  have flow: "\<exists>col. getcol m n = Inr col \<and> length col = length (index price)
                \<and> (\<forall>t < length (index price). col ! t \<noteq> NaN \<and>
                      col ! t =
                        (if flow_recorded chips (wall (index price ! t)) n
                         then stored L (pivot_gap chips \<or> ?miss)
                                (flow_on chips (wall (index price ! t)) n)
                         else Fin 0))"
    if n: "n \<in> set (map name chips)" for n
  proof -
    let ?c = "fillna0_series (map (\<lambda>d. pivot_cell L chips d n) (pivot_dates chips))"
    let ?col = "fillna0_series (join_column L ?ri ?l ?r ?c)"
    have "n \<in> set (map fst (cols ?r))"
      using n by (simp only: pivot_table_names set_pivot_names)
    with join_left_InrD(3)[OF j] have new: "n \<notin> set (map fst (cols ?l))"
      by blast
    have r: "getcol ?r n = Inr ?c"
      using n by (simp add: getcol_fillna0 getcol_pivot_table)
    have "getcol j n = Inr (join_column L ?ri ?l ?r ?c)"
      unfolding getcol_join_left_new[OF j new] r by simp
    then have g: "getcol m n = Inr ?col"
      unfolding m by (simp add: getcol_fillna0)
    have len: "length ?col = length (index price)"
      by (simp add: length_fillna0_series join_column_def Let_def)
    have cell: "?col ! t =
                  (if flow_recorded chips (wall (index price ! t)) n
                   then stored L (pivot_gap chips \<or> ?miss)
                          (flow_on chips (wall (index price ! t)) n)
                   else Fin 0)"
      if t: "t < length (index price)" for t
    proof -
      let ?v = "if ?ri \<and> join_missing ?l ?r
                then as_float64 L (lookup_row ?r ?c (tz_localize_None (index price ! t)))
                else lookup_row ?r ?c (tz_localize_None (index price ! t))"
      have "join_column L ?ri ?l ?r ?c ! t = ?v"
        using t by (simp add: join_column_def Let_def)
      then have "?col ! t = (if ?v = NaN then Fin 0 else ?v)"
        using t len by (simp add: nth_fillna0_series length_fillna0_series)
      also have "\<dots> = (if flow_recorded chips (wall (index price ! t)) n
                       then stored L (pivot_gap chips \<or> join_missing ?l ?r)
                              (flow_on chips (wall (index price ! t)) n)
                       else Fin 0)"
        by (rule joined_cell[OF n])
      finally show ?thesis unfolding join_missing_iff .
    qed
    have "?col ! t \<noteq> NaN" if "t < length (index price)" for t
      unfolding cell[OF that] by (simp add: stored_not_NaN)
    with g len cell show ?thesis by blast
  qed
  from walls idx flow False show ?thesis by blast
qed

theorem merged_rows_follow_price_dates_witness:
  "\<exists>m col. get_data (exact_lib False) (Inr zoned_price) (Inr trust_only) = Inr (Some m)
      \<and> map wall (index m) = [1, 2, 3] \<and> map tz (index m) = [None, None, None]
      \<and> getcol m ''Investment_Trust'' = Inr col \<and> col = [Fin 200, Fin 0, Fin (- 30)]
      \<and> flow_recorded trust_only 1 ''Investment_Trust''
      \<and> col ! 0 = stored (exact_lib False) True (flow_on trust_only 1 ''Investment_Trust'')
      \<and> col ! 0 \<noteq> NaN"
proof -
  let ?E = "exact_lib False"
  let ?g = "the (projr (get_data ?E (Inr zoned_price) (Inr trust_only)))"
  have g: "get_data ?E (Inr zoned_price) (Inr trust_only) = Inr (Some ?g)" by code_simp
  have t: "0 < length (index zoned_price)" by code_simp
  have n: "''Investment_Trust'' \<in> set (map name trust_only)" by code_simp
  have w: "wall (index zoned_price ! 0) = 1" by code_simp
  have rec: "flow_recorded trust_only 1 ''Investment_Trust''" by code_simp
  have miss: "\<exists>s \<in> set (index zoned_price). wall s \<notin> set (map date trust_only)"
  proof
    show "\<lparr>wall = 2, tz = Some ''Asia/Taipei''\<rparr> \<in> set (index zoned_price)"
      by (simp add: zoned_price_def)
    show "wall \<lparr>wall = 2, tz = Some ''Asia/Taipei''\<rparr> \<notin> set (map date trust_only)"
      by (simp add: trust_only_def)
  qed
  from merged_rows_follow_price_dates[OF g] n t obtain col where
    c: "getcol ?g ''Investment_Trust'' = Inr col" "col ! 0 \<noteq> NaN"
       "col ! 0 =
          (if flow_recorded trust_only (wall (index zoned_price ! 0)) ''Investment_Trust''
           then stored ?E (pivot_gap trust_only
                           \<or> (\<exists>s \<in> set (index zoned_price). wall s \<notin> set (map date trust_only)))
                  (flow_on trust_only (wall (index zoned_price ! 0)) ''Investment_Trust'')
           else Fin 0)"
    by blast
  from c(3) w rec miss have
    s: "col ! 0 = stored ?E True (flow_on trust_only 1 ''Investment_Trust'')"
    by simp
  have v: "getcol ?g ''Investment_Trust'' = Inr [Fin 200, Fin 0, Fin (- 30)]" by code_simp
  have i: "map wall (index ?g) = [1, 2, 3]" "map tz (index ?g) = [None, None, None]"
    by code_simp+
  from c(1) v have cv: "col = [Fin 200, Fin 0, Fin (- 30)]" by simp
  show ?thesis
  proof (intro exI conjI)
    show "get_data (exact_lib False) (Inr zoned_price) (Inr trust_only) = Inr (Some ?g)"
      by (rule g)
    show "map wall (index ?g) = [1, 2, 3]" by (rule i(1))
    show "map tz (index ?g) = [None, None, None]" by (rule i(2))
    show "getcol ?g ''Investment_Trust'' = Inr col" by (rule c(1))
    show "col = [Fin 200, Fin 0, Fin (- 30)]" by (rule cv)
    show "flow_recorded trust_only 1 ''Investment_Trust''" by (rule rec)
    show "col ! 0 = stored (exact_lib False) True (flow_on trust_only 1 ''Investment_Trust'')"
      by (rule s)
    show "col ! 0 \<noteq> NaN" by (rule c(2))
  qed
qed

text \<open>
  C10. \<open>run_backtest\<close> returns a table only for an input that has a column
  \<open>Foreign_Investor\<close>. \<open>get_data\<close> puts that column into the merged table whenever the
  flow call returns no record. When the flow call returns records of which none is named
  \<open>Foreign_Investor\<close> (and the price table has no such column), the merged table has no
  such column, and \<open>run_backtest\<close> on it raises the KeyError for \<open>Foreign_Investor\<close>
  instead of taking the net flow as 0.
\<close>

theorem foreign_investor_column_required:
  "(run_backtest L df w = Inr r \<longrightarrow> (\<exists>fi. getcol df ''Foreign_Investor'' = Inr fi))
   \<and> (get_data L (Inr price) (Inr []) = Inr (Some m') \<longrightarrow>
        (\<exists>fi. getcol m' ''Foreign_Investor'' = Inr fi))
   \<and> (get_data L (Inr price) (Inr chips) = Inr (Some m) \<and> chips \<noteq> []
        \<and> ''Foreign_Investor'' \<notin> set (map name chips)
        \<and> ''Foreign_Investor'' \<notin> set (map fst (cols price))
        \<and> getcol price ''Close'' = Inr close \<longrightarrow>
        getcol m ''Foreign_Investor'' = Inl (KeyError ''Foreign_Investor'')
        \<and> run_backtest L m w = Inl (KeyError ''Foreign_Investor''))"
proof -
  have needs: "\<exists>fi. getcol df ''Foreign_Investor'' = Inr fi"
    if "run_backtest L df w = Inr r"
    using that run_backtest_InrD by blast
  have given: "\<exists>fi. getcol m' ''Foreign_Investor'' = Inr fi"
    if "get_data L (Inr price) (Inr []) = Inr (Some m')"
    using get_data_empty_flow[OF that] by (simp add: getcol_setcol)
  have missing: "getcol m ''Foreign_Investor'' = Inl (KeyError ''Foreign_Investor'')
                 \<and> run_backtest L m w = Inl (KeyError ''Foreign_Investor'')"
    if g: "get_data L (Inr price) (Inr chips) = Inr (Some m)" and ne: "chips \<noteq> []"
      and n1: "''Foreign_Investor'' \<notin> set (map name chips)"
      and n2: "''Foreign_Investor'' \<notin> set (map fst (cols price))"
      and c: "getcol price ''Close'' = Inr close"
  proof -
    let ?l = "price\<lparr>index := map tz_localize_None (index price)\<rparr>"
    let ?r = "fillna0 (pivot_table L chips)"
    from get_data_joined[OF g ne] obtain j where
      j: "join_left L (\<not> pivot_gap chips) ?l ?r = Inr j" and m: "m = fillna0 j"
      by blast
    have new: "''Foreign_Investor'' \<notin> set (map fst (cols ?l))"
      using n2 by simp
    have r: "getcol ?r ''Foreign_Investor'' = Inl (KeyError ''Foreign_Investor'')"
      using n1 by (simp add: getcol_fillna0 getcol_pivot_table)
    have "getcol j ''Foreign_Investor'' = Inl (KeyError ''Foreign_Investor'')"
      unfolding getcol_join_left_new[OF j new] r by simp
    then have fi: "getcol m ''Foreign_Investor'' = Inl (KeyError ''Foreign_Investor'')"
      unfolding m by (simp add: getcol_fillna0)
    have "getcol ?l ''Close'' = Inr close"
      using c by (simp add: getcol_index_update)
    from getcol_join_left_old[OF j this]
    have cl: "getcol m ''Close'' = Inr (fillna0_series close)"
      unfolding m by (simp add: getcol_fillna0)
    from fi run_backtest_no_flow[OF cl fi] show ?thesis by simp
  qed
  from needs given missing show ?thesis by blast
qed

theorem foreign_investor_column_required_witness:
  "\<exists>fi. get_data (exact_lib False) (Inr scenario_A_price) (Inr []) = Inr (Some scenario_A)
      \<and> getcol scenario_A ''Foreign_Investor'' = Inr fi
      \<and> get_data (exact_lib False) (Inr scenario_A_price) (Inr trust_only)
           = Inr (Some scenario_A_trust)
      \<and> trust_only \<noteq> []
      \<and> getcol scenario_A_trust ''Investment_Trust''
           = Inr [Fin 200, Fin 0, Fin (- 30), Fin 0, Fin 0]
      \<and> getcol scenario_A_trust ''Foreign_Investor'' = Inl (KeyError ''Foreign_Investor'')
      \<and> run_backtest (exact_lib False) scenario_A_trust 20
           = Inl (KeyError ''Foreign_Investor'')"
proof -
  let ?E = "exact_lib False"
  have ga: "get_data ?E (Inr scenario_A_price) (Inr []) = Inr (Some scenario_A)"
    by code_simp
  have gt: "get_data ?E (Inr scenario_A_price) (Inr trust_only) = Inr (Some scenario_A_trust)"
    by code_simp
  have ne: "trust_only \<noteq> []" by code_simp
  have n1: "''Foreign_Investor'' \<notin> set (map name trust_only)" by code_simp
  have n2: "''Foreign_Investor'' \<notin> set (map fst (cols scenario_A_price))" by code_simp
  have c: "getcol scenario_A_price ''Close''
             = Inr [Fin 100, Fin 102, Fin 101, Fin 105, Fin 104]"
    by code_simp
  have v: "getcol scenario_A_trust ''Investment_Trust''
             = Inr [Fin 200, Fin 0, Fin (- 30), Fin 0, Fin 0]"
    by code_simp
  note inst = foreign_investor_column_required
         [of "exact_lib False" scenario_A_trust 20 scenario_A_trust scenario_A_price
             scenario_A trust_only
             scenario_A_trust "[Fin 100, Fin 102, Fin 101, Fin 105, Fin 104]"]
  from inst ga obtain fi where fi: "getcol scenario_A ''Foreign_Investor'' = Inr fi"
    by blast
  from inst gt ne n1 n2 c
  have k: "getcol scenario_A_trust ''Foreign_Investor'' = Inl (KeyError ''Foreign_Investor'')"
    "run_backtest ?E scenario_A_trust 20 = Inl (KeyError ''Foreign_Investor'')"
    by blast+
  from ga fi gt ne v k show ?thesis by blast
qed

end
